theory Spec2Isabelle
  imports Main "HOL-Library.Word" "HOL-Library.Multiset" "HOL-Library.Stream"
begin

section \<open>Snapshot size attribution and threshold evaluation of check-vmware\<close>

text \<open>
  A shallow embedding of the snapshot part of package \<open>vsphere\<close>: the threshold
  functions \<open>ExceedsSize\<close> and \<open>ExceedsAge\<close>, the types \<open>SnapshotSummary\<close>,
  \<open>SnapshotSummarySet\<close> and \<open>SnapshotSummarySets\<close> with their methods, the helper
  \<open>removeFileKey\<close>, the constructor \<open>NewSnapshotSummarySet\<close> with its recursive closure
  \<open>crawlFunc\<close>, and the state switch of the snapshots age plugin's \<open>main\<close>.
\<close>

subsection \<open>Machine integers, time and panics\<close>

text \<open>
  Go's \<open>int64\<close> and \<open>int32\<close> are words; \<open>+\<close> and \<open>*\<close> wrap around and comparisons
  are signed. Go's \<open>int\<close> is taken at its width on 64-bit platforms, where the
  conversion \<open>int64(n)\<close> is the identity. Counters that only count elements of a
  slice are natural numbers.
\<close>

type_synonym int64 = "64 word"
type_synonym int32 = "32 word"
type_synonym go_int = "64 word"

text \<open>
  \<open>units.GB\<close> of govmomi is the untyped constant \<open>1 << 30\<close>.
\<close>

definition GB :: int64 where
  "GB = 1073741824"

text \<open>
  A \<open>time.Time\<close> of the standard library is the pair that its methods \<open>sec()\<close> and
  \<open>nsec()\<close> return: the seconds since January 1 of year 1, an \<open>int64\<close>, and the
  nanoseconds within the second, an \<open>int32\<close>. \<open>Before\<close>, \<open>Equal\<close> and \<open>After\<close>
  compare the seconds and then the nanoseconds, as the library does for times that
  carry no monotonic reading (a creation time read from the inventory and the result
  of \<open>AddDate\<close> carry none).
\<close>

record Time =
  sec :: int64
  nsec :: int32

definition Before :: "Time \<Rightarrow> Time \<Rightarrow> bool" where
  "Before t u = (sec t <s sec u \<or> sec t = sec u \<and> nsec t <s nsec u)"

definition After :: "Time \<Rightarrow> Time \<Rightarrow> bool" where
  "After t u = (sec u <s sec t \<or> sec t = sec u \<and> nsec u <s nsec t)"

definition Equal :: "Time \<Rightarrow> Time \<Rightarrow> bool" where
  "Equal t u = (sec t = sec u \<and> nsec t = nsec u)"

text \<open>
  \<open>AddDate_days t d\<close> stands for \<open>t.AddDate(0, 0, d)\<close> in a location whose offset from
  UTC does not change (UTC itself, or a zone without daylight saving time).
  \<open>AddDate\<close> splits the time into its civil date and clock, adds \<open>d\<close> to the day and
  has \<open>Date\<close> count the seconds again, in unsigned 64-bit arithmetic: the seconds
  move by \<open>d * 86400\<close> modulo \<open>2 ^ 64\<close>, the nanoseconds stay.
\<close>

definition AddDate_days :: "Time \<Rightarrow> go_int \<Rightarrow> Time" where
  "AddDate_days t d = t\<lparr>sec := sec t + d * 86400\<rparr>"

text \<open>
  The wall clock is state: it is the stream of the readings that the calls of
  \<open>time.Now()\<close> will return, and every call takes the first.
\<close>

type_synonym clock = "Time stream"

definition time_Now :: "clock \<Rightarrow> Time \<times> clock" where
  "time_Now clk = (shd clk, stl clk)"

text \<open>Dereferencing a nil pointer panics; a panic is a value of the model.\<close>

datatype panic = NilPointerDereference

subsection \<open>Threshold functions\<close>

definition ExceedsSize :: "int64 \<Rightarrow> int64 \<Rightarrow> bool" where
  "ExceedsSize snapshotSize thresholdSize = (thresholdSize * GB <s snapshotSize)"

text \<open>\<open>ExceedsAge\<close> reads the clock once; it returns its result and the clock.\<close>

definition ExceedsAge :: "clock \<Rightarrow> Time \<Rightarrow> go_int \<Rightarrow> bool \<times> clock" where
  "ExceedsAge clk snapshotCreated days =
     (let (now, clk') = time_Now clk;
          daysBack = - days;
          ageThreshold = AddDate_days now daysBack
      in (if Before snapshotCreated ageThreshold then True
          else if Equal snapshotCreated ageThreshold then False
          else if After snapshotCreated ageThreshold then False
          else False,
          clk'))"

subsection \<open>Inventory types\<close>

text \<open>
  The fields of the govmomi types that the package reads. A pointer field is an
  \<open>option\<close>; a nil slice and an empty slice are both the empty list, which the code
  does not tell apart (it ranges over them and takes their length).
\<close>

record ManagedObjectReference =
  mor_Type :: string
  mor_Value :: string

record VirtualMachineFileLayoutExFileInfo =
  file_Key :: int32
  file_Name :: string
  file_Type :: string
  file_Size :: int64

record VirtualMachineFileLayoutExDiskUnit =
  FileKey :: "int32 list"

record VirtualMachineFileLayoutExDiskLayout =
  disk_Key :: int32
  Chain :: "VirtualMachineFileLayoutExDiskUnit list"

record VirtualMachineFileLayoutExSnapshotLayout =
  snap_Key :: ManagedObjectReference
  DataKey :: int32
  snap_Disk :: "VirtualMachineFileLayoutExDiskLayout list"

record VirtualMachineFileLayoutEx =
  layout_File :: "VirtualMachineFileLayoutExFileInfo list"
  layout_Disk :: "VirtualMachineFileLayoutExDiskLayout list"
  layout_Snapshot :: "VirtualMachineFileLayoutExSnapshotLayout list"

datatype VirtualMachineSnapshotTree =
  VirtualMachineSnapshotTree
    (tree_Snapshot: ManagedObjectReference)
    (tree_Name: string)
    (tree_Description: string)
    (tree_Id: int32)
    (tree_CreateTime: Time)
    (ChildSnapshotList: "VirtualMachineSnapshotTree list")

record VirtualMachineSnapshotInfo =
  CurrentSnapshot :: "ManagedObjectReference option"
  RootSnapshotList :: "VirtualMachineSnapshotTree list"

record VirtualMachine =
  vm_Self :: ManagedObjectReference
  vm_Name :: string
  vm_Snapshot :: "VirtualMachineSnapshotInfo option"
  vm_LayoutEx :: "VirtualMachineFileLayoutEx option"

subsection \<open>Summaries\<close>

record SnapshotSummary =
  Name :: string
  MOID :: string
  Description :: string
  createTime :: Time
  Size :: int64
  ID :: int32
  ageWarningState :: bool
  ageCriticalState :: bool
  sizeWarningState :: bool
  sizeCriticalState :: bool
  VMName :: string

record SnapshotSummarySet =
  VM :: ManagedObjectReference
  set_VMName :: string
  Snapshots :: "SnapshotSummary list"
  setSizeWarningState :: bool
  setSizeCriticalState :: bool

type_synonym SnapshotSummarySets = "SnapshotSummarySet list"

subsection \<open>Loops\<close>

text \<open>
  The loop \<open>for i := range xs { if p(xs[i]) { return true } }; return false\<close>, which
  every state query of a set and of a collection of sets is written as.
\<close>

primrec range_returns_true :: "('a \<Rightarrow> bool) \<Rightarrow> 'a list \<Rightarrow> bool" where
  "range_returns_true p [] = False"
| "range_returns_true p (x # xs) = (if p x then True else range_returns_true p xs)"

subsection \<open>Methods of \<open>SnapshotSummary\<close>\<close>

definition SnapshotSummary_IsAgeExceeded ::
  "clock \<Rightarrow> SnapshotSummary \<Rightarrow> go_int \<Rightarrow> bool \<times> clock" where
  "SnapshotSummary_IsAgeExceeded clk ss days = ExceedsAge clk (createTime ss) days"

definition SnapshotSummary_IsSizeExceeded :: "SnapshotSummary \<Rightarrow> go_int \<Rightarrow> bool" where
  "SnapshotSummary_IsSizeExceeded ss sizeGB = ExceedsSize (Size ss) sizeGB"

definition SnapshotSummary_IsWarningState :: "SnapshotSummary \<Rightarrow> bool" where
  "SnapshotSummary_IsWarningState ss = (ageWarningState ss \<or> sizeWarningState ss)"

definition SnapshotSummary_IsCriticalState :: "SnapshotSummary \<Rightarrow> bool" where
  "SnapshotSummary_IsCriticalState ss = (ageCriticalState ss \<or> sizeCriticalState ss)"

definition SnapshotSummary_IsAgeWarningState :: "SnapshotSummary \<Rightarrow> bool" where
  "SnapshotSummary_IsAgeWarningState ss = ageWarningState ss"

definition SnapshotSummary_IsAgeCriticalState :: "SnapshotSummary \<Rightarrow> bool" where
  "SnapshotSummary_IsAgeCriticalState ss = ageCriticalState ss"

definition SnapshotSummary_IsSizeWarningState :: "SnapshotSummary \<Rightarrow> bool" where
  "SnapshotSummary_IsSizeWarningState ss = sizeWarningState ss"

definition SnapshotSummary_IsSizeCriticalState :: "SnapshotSummary \<Rightarrow> bool" where
  "SnapshotSummary_IsSizeCriticalState ss = sizeCriticalState ss"

subsection \<open>Methods of \<open>SnapshotSummarySet\<close>\<close>

definition SnapshotSummarySet_Size :: "SnapshotSummarySet \<Rightarrow> int64" where
  "SnapshotSummarySet_Size sss = foldl (\<lambda>sum snap. sum + Size snap) 0 (Snapshots sss)"

text \<open>The loop calls \<open>IsAgeExceeded\<close>, and with it the clock, once for every snapshot.\<close>

definition SnapshotSummarySet_ExceedsAge ::
  "clock \<Rightarrow> SnapshotSummarySet \<Rightarrow> go_int \<Rightarrow> nat \<times> clock" where
  "SnapshotSummarySet_ExceedsAge clk sss days =
     foldl (\<lambda>(numExceeded, clk) snap.
              case SnapshotSummary_IsAgeExceeded clk snap days of
                (exceeded, clk') \<Rightarrow> (if exceeded then numExceeded + 1 else numExceeded, clk'))
       (0, clk) (Snapshots sss)"

definition SnapshotSummarySet_ExceedsSize :: "SnapshotSummarySet \<Rightarrow> go_int \<Rightarrow> nat" where
  "SnapshotSummarySet_ExceedsSize sss sizeGB =
     foldl (\<lambda>numSnapshotsExceeded snap.
              if SnapshotSummary_IsSizeExceeded snap sizeGB then numSnapshotsExceeded + 1
              else numSnapshotsExceeded)
       0 (Snapshots sss)"

definition SnapshotSummarySet_IsWarningState :: "SnapshotSummarySet \<Rightarrow> bool" where
  "SnapshotSummarySet_IsWarningState sss =
     range_returns_true SnapshotSummary_IsWarningState (Snapshots sss)"

definition SnapshotSummarySet_IsCriticalState :: "SnapshotSummarySet \<Rightarrow> bool" where
  "SnapshotSummarySet_IsCriticalState sss =
     range_returns_true SnapshotSummary_IsCriticalState (Snapshots sss)"

definition SnapshotSummarySet_IsAgeWarningState :: "SnapshotSummarySet \<Rightarrow> bool" where
  "SnapshotSummarySet_IsAgeWarningState sss =
     range_returns_true SnapshotSummary_IsAgeWarningState (Snapshots sss)"

definition SnapshotSummarySet_IsAgeCriticalState :: "SnapshotSummarySet \<Rightarrow> bool" where
  "SnapshotSummarySet_IsAgeCriticalState sss =
     range_returns_true SnapshotSummary_IsAgeCriticalState (Snapshots sss)"

definition SnapshotSummarySet_IsSizeWarningState :: "SnapshotSummarySet \<Rightarrow> bool" where
  "SnapshotSummarySet_IsSizeWarningState sss = setSizeWarningState sss"

definition SnapshotSummarySet_IsSizeCriticalState :: "SnapshotSummarySet \<Rightarrow> bool" where
  "SnapshotSummarySet_IsSizeCriticalState sss = setSizeCriticalState sss"

subsection \<open>Methods of \<open>SnapshotSummarySets\<close>\<close>

definition SnapshotSummarySets_Snapshots :: "SnapshotSummarySets \<Rightarrow> nat" where
  "SnapshotSummarySets_Snapshots sss =
     foldl (\<lambda>numSnapshots s. numSnapshots + length (Snapshots s)) 0 sss"

text \<open>
  The loop calls \<open>set.ExceedsAge\<close> for every set, and a second time for a set whose
  first count is at least 1; the second count is the one that is added.
\<close>

definition SnapshotSummarySets_ExceedsAge ::
  "clock \<Rightarrow> SnapshotSummarySets \<Rightarrow> go_int \<Rightarrow> (nat \<times> nat) \<times> clock" where
  "SnapshotSummarySets_ExceedsAge clk sss days =
     foldl (\<lambda>((setsExceeded, snapshotsExceeded), clk) s.
              case SnapshotSummarySet_ExceedsAge clk s days of
                (first, clk') \<Rightarrow>
                  if first \<ge> 1
                  then (case SnapshotSummarySet_ExceedsAge clk' s days of
                          (second, clk'') \<Rightarrow>
                            ((setsExceeded + 1, snapshotsExceeded + second), clk''))
                  else ((setsExceeded, snapshotsExceeded), clk'))
       ((0, 0), clk) sss"

definition SnapshotSummarySets_ExceedsSize :: "SnapshotSummarySets \<Rightarrow> go_int \<Rightarrow> nat \<times> nat" where
  "SnapshotSummarySets_ExceedsSize sss sizeGB =
     foldl (\<lambda>(numSetsExceeded, numSnapshotsExceeded) s.
              if sizeGB * GB <s SnapshotSummarySet_Size s
              then (numSetsExceeded + 1, numSnapshotsExceeded + length (Snapshots s))
              else (numSetsExceeded, numSnapshotsExceeded))
       (0, 0) sss"

definition SnapshotSummarySets_IsWarningState :: "SnapshotSummarySets \<Rightarrow> bool" where
  "SnapshotSummarySets_IsWarningState sss =
     range_returns_true SnapshotSummarySet_IsWarningState sss"

definition SnapshotSummarySets_IsCriticalState :: "SnapshotSummarySets \<Rightarrow> bool" where
  "SnapshotSummarySets_IsCriticalState sss =
     range_returns_true SnapshotSummarySet_IsCriticalState sss"

definition SnapshotSummarySets_IsAgeWarningState :: "SnapshotSummarySets \<Rightarrow> bool" where
  "SnapshotSummarySets_IsAgeWarningState sss =
     range_returns_true SnapshotSummarySet_IsAgeWarningState sss"

definition SnapshotSummarySets_IsAgeCriticalState :: "SnapshotSummarySets \<Rightarrow> bool" where
  "SnapshotSummarySets_IsAgeCriticalState sss =
     range_returns_true SnapshotSummarySet_IsAgeCriticalState sss"

definition SnapshotSummarySets_IsSizeWarningState :: "SnapshotSummarySets \<Rightarrow> bool" where
  "SnapshotSummarySets_IsSizeWarningState sss =
     range_returns_true SnapshotSummarySet_IsSizeWarningState sss"

definition SnapshotSummarySets_IsSizeCriticalState :: "SnapshotSummarySets \<Rightarrow> bool" where
  "SnapshotSummarySets_IsSizeCriticalState sss =
     range_returns_true SnapshotSummarySet_IsSizeCriticalState sss"

subsection \<open>The state switch of the snapshots age plugin\<close>

text \<open>
  After building the collection, \<open>main\<close> of \<open>check_vmware_snapshots_age\<close> sets the
  exit status in a switch: \<open>IsAgeCriticalState\<close> first, \<open>IsAgeWarningState\<close> second,
  the default last.
\<close>

datatype ExitStatusCode = StateOKExitCode | StateWARNINGExitCode | StateCRITICALExitCode

definition main_ExitStatusCode :: "SnapshotSummarySets \<Rightarrow> ExitStatusCode" where
  "main_ExitStatusCode snapshotSets =
     (if SnapshotSummarySets_IsAgeCriticalState snapshotSets then StateCRITICALExitCode
      else if SnapshotSummarySets_IsAgeWarningState snapshotSets then StateWARNINGExitCode
      else StateOKExitCode)"

subsection \<open>\<open>removeFileKey\<close> and \<open>NewSnapshotSummarySet\<close>\<close>

text \<open>
  \<open>removeFileKey\<close> drops the first occurrence of the key from the slice it is given
  by pointer; the model returns the new slice.
\<close>

fun removeFileKey :: "int32 list \<Rightarrow> int32 \<Rightarrow> int32 list" where
  "removeFileKey [] key = []"
| "removeFileKey (k # l) key = (if k = key then l else k # removeFileKey l key)"

text \<open>
  The nested loop \<open>for _, disk := range disks { for _, link := range disk.Chain {
  keys = append(keys, link.FileKey...) } }\<close>, written three times in the source.
\<close>

definition appendChainFileKeys ::
  "int32 list \<Rightarrow> VirtualMachineFileLayoutExDiskLayout list \<Rightarrow> int32 list" where
  "appendChainFileKeys keys disks =
     foldl (\<lambda>keys disk. foldl (\<lambda>keys link. keys @ FileKey link) keys (Chain disk)) keys disks"

text \<open>
  \<open>fileKeyMap[key].Size\<close>: a key that is not in the map yields the zero value of the
  file info, whose size is 0.
\<close>

definition fileKeyMap_Size ::
  "(int32 \<rightharpoonup> VirtualMachineFileLayoutExFileInfo) \<Rightarrow> int32 \<Rightarrow> int64" where
  "fileKeyMap_Size m key = (case m key of None \<Rightarrow> 0 | Some fileLayout \<Rightarrow> file_Size fileLayout)"

text \<open>The variables of \<open>NewSnapshotSummarySet\<close> that the closure \<open>crawlFunc\<close> captures.\<close>

record captured =
  snapshotsAgeCritical :: go_int
  snapshotsAgeWarning :: go_int
  snapshotsSizeCritical :: go_int
  snapshotsSizeWarning :: go_int
  vmAllDiskFileKeys :: "int32 list"
  fileKeyMap :: "int32 \<rightharpoonup> VirtualMachineFileLayoutExFileInfo"

text \<open>
  The loop over \<open>vm.LayoutEx.Snapshot\<close> that collects \<open>snapshotDiskFileKeys\<close> and
  \<open>parentSnapshotDiskFileKeys\<close>, the state of the loop being the pair of both.
\<close>

definition collectFileKeys ::
  "ManagedObjectReference \<Rightarrow> ManagedObjectReference option \<Rightarrow>
   VirtualMachineFileLayoutExSnapshotLayout list \<Rightarrow> int32 list \<times> int32 list" where
  "collectFileKeys snapshot parent layouts =
     foldl (\<lambda>(snapshotDiskFileKeys, parentSnapshotDiskFileKeys) snapLayout.
              (if mor_Value (snap_Key snapLayout) = mor_Value snapshot
               then appendChainFileKeys (snapshotDiskFileKeys @ [DataKey snapLayout]) (snap_Disk snapLayout)
               else snapshotDiskFileKeys,
               case parent of
                 None \<Rightarrow> parentSnapshotDiskFileKeys
               | Some p \<Rightarrow>
                   if mor_Value (snap_Key snapLayout) = mor_Value p
                   then appendChainFileKeys parentSnapshotDiskFileKeys (snap_Disk snapLayout)
                   else parentSnapshotDiskFileKeys))
       ([], []) layouts"

text \<open>
  The size that the body of the loop of \<open>crawlFunc\<close> computes for one snapshot tree
  node, given the layout of the machine and its current snapshot reference.
\<close>

definition snapshotSize_of ::
  "captured \<Rightarrow> VirtualMachineFileLayoutEx \<Rightarrow> ManagedObjectReference \<Rightarrow>
   ManagedObjectReference \<Rightarrow> ManagedObjectReference option \<Rightarrow> int64" where
  "snapshotSize_of env layoutEx currentSnapshot snapshot parent =
     (let (collected, parentSnapshotDiskFileKeys) =
            collectFileKeys snapshot parent (layout_Snapshot layoutEx);
          allSnapshotKeys = collected;
          remainingDiskFiles = vmAllDiskFileKeys env;
          snapshotDiskFileKeys =
            (case parent of
               None \<Rightarrow> foldl removeFileKey collected (vmAllDiskFileKeys env)
             | Some p \<Rightarrow> foldl removeFileKey collected parentSnapshotDiskFileKeys);
          snapshotSize =
            foldl (\<lambda>snapshotSize fileKey. snapshotSize + fileKeyMap_Size (fileKeyMap env) fileKey)
              0 snapshotDiskFileKeys
      in if mor_Value snapshot = mor_Value currentSnapshot
         then foldl (\<lambda>snapshotSize fileKey. snapshotSize + fileKeyMap_Size (fileKeyMap env) fileKey)
                snapshotSize (foldl removeFileKey remainingDiskFiles allSnapshotKeys)
         else snapshotSize)"

text \<open>
  The struct literal that the body of the loop appends to \<open>snapshots\<close>. Its two calls
  of \<open>ExceedsAge\<close> read the clock one after the other, the warning flag first. The size
  warning flag is computed with \<open>snapshotsSizeCritical\<close> and the size critical flag
  with \<open>snapshotsSizeWarning\<close>, as in the source.
\<close>

definition snapshotSummary_of ::
  "captured \<Rightarrow> clock \<Rightarrow> VirtualMachine \<Rightarrow> VirtualMachineFileLayoutEx \<Rightarrow>
   ManagedObjectReference \<Rightarrow> VirtualMachineSnapshotTree \<Rightarrow> ManagedObjectReference option \<Rightarrow>
   SnapshotSummary \<times> clock" where
  "snapshotSummary_of env clk vm layoutEx currentSnapshot snapTree parent =
     (let snapshotSize = snapshotSize_of env layoutEx currentSnapshot (tree_Snapshot snapTree) parent;
          (ageWarning, clk1) = ExceedsAge clk (tree_CreateTime snapTree) (snapshotsAgeWarning env);
          (ageCritical, clk2) = ExceedsAge clk1 (tree_CreateTime snapTree) (snapshotsAgeCritical env)
      in (\<lparr>Name = tree_Name snapTree,
           MOID = mor_Value (tree_Snapshot snapTree),
           Description = tree_Description snapTree,
           createTime = tree_CreateTime snapTree,
           Size = snapshotSize,
           ID = tree_Id snapTree,
           ageWarningState = ageWarning,
           ageCriticalState = ageCritical,
           sizeWarningState = ExceedsSize snapshotSize (snapshotsSizeCritical env),
           sizeCriticalState = ExceedsSize snapshotSize (snapshotsSizeWarning env),
           VMName = vm_Name vm\<rparr>,
          clk2))"

text \<open>
  \<open>crawlFunc\<close> appends to the slice \<open>snapshots\<close> of the enclosing function and reads
  the clock; the model takes the slice and the clock and returns both. The body reads
  \<open>vm.Snapshot.CurrentSnapshot.Value\<close> and \<open>vm.LayoutEx.Snapshot\<close> for every node, so a
  nil \<open>vm.Snapshot\<close>, \<open>CurrentSnapshot\<close> or \<open>vm.LayoutEx\<close> panics at the first node.
  The recursive call gets \<open>&snapTree.Snapshot\<close> as its parent.
\<close>

fun crawlFunc ::
  "captured \<Rightarrow> VirtualMachine \<Rightarrow> VirtualMachineSnapshotTree list \<Rightarrow>
   ManagedObjectReference option \<Rightarrow> SnapshotSummary list \<times> clock \<Rightarrow>
   panic + SnapshotSummary list \<times> clock" where
  "crawlFunc env vm [] parent state = Inr state"
| "crawlFunc env vm (VirtualMachineSnapshotTree snapshot name description ident created children # snapTrees)
     parent state =
     (case vm_Snapshot vm of
        None \<Rightarrow> Inl NilPointerDereference
      | Some info \<Rightarrow>
     (case CurrentSnapshot info of
        None \<Rightarrow> Inl NilPointerDereference
      | Some currentSnapshot \<Rightarrow>
     (case vm_LayoutEx vm of
        None \<Rightarrow> Inl NilPointerDereference
      | Some layoutEx \<Rightarrow>
     (case crawlFunc env vm children (Some snapshot)
             (case snapshotSummary_of env (snd state) vm layoutEx currentSnapshot
                     (VirtualMachineSnapshotTree snapshot name description ident created children)
                     parent of
                (summary, clk') \<Rightarrow> (fst state @ [summary], clk')) of
        Inl p \<Rightarrow> Inl p
      | Inr state' \<Rightarrow> crawlFunc env vm snapTrees parent state'))))"

text \<open>
  The variables that the closure captures, as \<open>NewSnapshotSummarySet\<close> has set them
  when it calls \<open>crawlFunc\<close>: the thresholds are its parameters,
  \<open>vmAllDiskFileKeys\<close> and \<open>fileKeyMap\<close> are filled by its first two loops, the map
  by plain assignment, so that the last file of a key wins.
\<close>

definition captured_variables ::
  "VirtualMachineFileLayoutEx \<Rightarrow> go_int \<Rightarrow> go_int \<Rightarrow> go_int \<Rightarrow> go_int \<Rightarrow> captured" where
  "captured_variables layoutEx ageCritical ageWarning sizeCritical sizeWarning =
     \<lparr>snapshotsAgeCritical = ageCritical,
      snapshotsAgeWarning = ageWarning,
      snapshotsSizeCritical = sizeCritical,
      snapshotsSizeWarning = sizeWarning,
      vmAllDiskFileKeys = appendChainFileKeys [] (layout_Disk layoutEx),
      fileKeyMap =
        foldl (\<lambda>m fileLayout. m(file_Key fileLayout \<mapsto> fileLayout)) Map.empty
          (layout_File layoutEx)\<rparr>"

text \<open>
  \<open>NewSnapshotSummarySet\<close> reads the clock once for \<open>funcTimeStart\<close>, which it only
  logs, before it builds the captured variables and walks the forest (the deferred
  \<open>time.Since\<close> reads the monotonic clock of the runtime, not \<open>time.Now()\<close>). It
  returns the set and the clock.
\<close>

definition NewSnapshotSummarySet ::
  "clock \<Rightarrow> VirtualMachine \<Rightarrow> go_int \<Rightarrow> go_int \<Rightarrow> go_int \<Rightarrow> go_int \<Rightarrow>
   panic + SnapshotSummarySet \<times> clock" where
  "NewSnapshotSummarySet clk vm ageCritical ageWarning sizeCritical sizeWarning =
     (case vm_Snapshot vm of
        None \<Rightarrow> Inl NilPointerDereference
      | Some info \<Rightarrow>
     (case time_Now clk of (funcTimeStart, clk') \<Rightarrow>
     (case vm_LayoutEx vm of
        None \<Rightarrow> Inl NilPointerDereference
      | Some layoutEx \<Rightarrow>
     (case crawlFunc
             (captured_variables layoutEx ageCritical ageWarning sizeCritical sizeWarning)
             vm (RootSnapshotList info) None ([], clk') of
        Inl p \<Rightarrow> Inl p
      | Inr (snapshots, clk'') \<Rightarrow>
          (let setSize = foldl (\<lambda>setSize snap. setSize + Size snap) 0 snapshots
           in Inr (\<lparr>VM = vm_Self vm,
                    set_VMName = vm_Name vm,
                    Snapshots = snapshots,
                    setSizeWarningState = ExceedsSize setSize sizeWarning,
                    setSizeCriticalState = ExceedsSize setSize sizeCritical\<rparr>,
                   clk''))))))"

subsection \<open>Reference descriptions\<close>

text \<open>
  The snapshot forest listed in depth-first pre-order, every node paired with the
  reference of its parent: a node comes before the nodes below it, and siblings keep
  the order of the input.
\<close>

fun preorder ::
  "ManagedObjectReference option \<Rightarrow> VirtualMachineSnapshotTree list \<Rightarrow>
   (VirtualMachineSnapshotTree \<times> ManagedObjectReference option) list" where
  "preorder parent [] = []"
| "preorder parent (VirtualMachineSnapshotTree snapshot name description ident created children # snapTrees) =
     (VirtualMachineSnapshotTree snapshot name description ident created children, parent) #
     preorder (Some snapshot) children @ preorder parent snapTrees"

text \<open>The number of nodes of a forest.\<close>

fun nodes :: "VirtualMachineSnapshotTree list \<Rightarrow> nat" where
  "nodes [] = 0"
| "nodes (VirtualMachineSnapshotTree snapshot name description ident created children # snapTrees) =
     1 + nodes children + nodes snapTrees"

text \<open>
  The file keys of the disk chains of a list of disks; the keys of a snapshot (its
  data file and the chains of its layout entries); the chain keys of a parent; and
  the sizes of a multiset of keys summed through the file index, with the wrap-around
  of \<open>int64\<close>.
\<close>

definition chain_keys :: "VirtualMachineFileLayoutExDiskLayout list \<Rightarrow> int32 list" where
  "chain_keys disks = concat (map (\<lambda>disk. concat (map FileKey (Chain disk))) disks)"

definition layouts_of ::
  "VirtualMachineFileLayoutEx \<Rightarrow> ManagedObjectReference \<Rightarrow>
   VirtualMachineFileLayoutExSnapshotLayout list" where
  "layouts_of layoutEx snapshot =
     filter (\<lambda>snapLayout. mor_Value (snap_Key snapLayout) = mor_Value snapshot)
       (layout_Snapshot layoutEx)"

definition this_snapshot_keys ::
  "VirtualMachineFileLayoutEx \<Rightarrow> ManagedObjectReference \<Rightarrow> int32 list" where
  "this_snapshot_keys layoutEx snapshot =
     concat (map (\<lambda>snapLayout. DataKey snapLayout # chain_keys (snap_Disk snapLayout))
       (layouts_of layoutEx snapshot))"

definition parent_disk_keys ::
  "VirtualMachineFileLayoutEx \<Rightarrow> ManagedObjectReference option \<Rightarrow> int32 list" where
  "parent_disk_keys layoutEx parent =
     (case parent of
        None \<Rightarrow> []
      | Some p \<Rightarrow> concat (map (\<lambda>snapLayout. chain_keys (snap_Disk snapLayout)) (layouts_of layoutEx p)))"

definition summed_size :: "captured \<Rightarrow> int32 multiset \<Rightarrow> int64" where
  "summed_size env keys = sum_mset (image_mset (fileKeyMap_Size (fileKeyMap env)) keys)"

text \<open>
  Exact instants: the seconds and the nanoseconds of a time as integers without
  bound, ordered by \<open>earlier\<close> (strictly before); \<open>days_ago now n\<close> is the instant
  \<open>n\<close> days of 24 hours before \<open>now\<close>.
\<close>

definition instant :: "Time \<Rightarrow> int \<times> int" where
  "instant t = (sint (sec t), sint (nsec t))"

definition days_ago :: "Time \<Rightarrow> go_int \<Rightarrow> int \<times> int" where
  "days_ago now n = (sint (sec now) - sint n * 86400, sint (nsec now))"

definition earlier :: "int \<times> int \<Rightarrow> int \<times> int \<Rightarrow> bool" where
  "earlier a b = (fst a < fst b \<or> fst a = fst b \<and> snd a < snd b)"

text \<open>A snapshot created strictly before the instant \<open>n\<close> days before \<open>now\<close>.\<close>

definition old_at :: "Time \<Rightarrow> go_int \<Rightarrow> SnapshotSummary \<Rightarrow> bool" where
  "old_at now n snap = earlier (instant (createTime snap)) (days_ago now n)"

text \<open>
  One step of the walk: the summary of a node, computed with the reference of its
  parent and the clock as it stands, is appended to the summaries.
\<close>

definition append_summary ::
  "captured \<Rightarrow> VirtualMachine \<Rightarrow> VirtualMachineFileLayoutEx \<Rightarrow> ManagedObjectReference \<Rightarrow>
   SnapshotSummary list \<times> clock \<Rightarrow> VirtualMachineSnapshotTree \<times> ManagedObjectReference option \<Rightarrow>
   SnapshotSummary list \<times> clock" where
  "append_summary env vm layoutEx currentSnapshot state node =
     (case snapshotSummary_of env (snd state) vm layoutEx currentSnapshot (fst node) (snd node) of
        (summary, clk') \<Rightarrow> (fst state @ [summary], clk'))"

subsection \<open>Example inventories\<close>

text \<open>Midnight of day \<open>n\<close>, counted from the origin of the seconds.\<close>

definition day_instant :: "int64 \<Rightarrow> Time" where
  "day_instant n = \<lparr>sec = n * 86400, nsec = 0\<rparr>"

definition example_summary ::
  "int64 \<Rightarrow> Time \<Rightarrow> bool \<Rightarrow> bool \<Rightarrow> bool \<Rightarrow> bool \<Rightarrow> SnapshotSummary" where
  "example_summary bytes created ageW ageC sizeW sizeC =
     \<lparr>Name = ''before-upgrade'', MOID = ''snapshot-11'', Description = [],
      createTime = created, Size = bytes, ID = 1,
      ageWarningState = ageW, ageCriticalState = ageC,
      sizeWarningState = sizeW, sizeCriticalState = sizeC, VMName = ''web01''\<rparr>"

definition example_set :: "SnapshotSummary list \<Rightarrow> bool \<Rightarrow> bool \<Rightarrow> SnapshotSummarySet" where
  "example_set snaps setW setC =
     \<lparr>VM = \<lparr>mor_Type = ''VirtualMachine'', mor_Value = ''vm-7''\<rparr>, set_VMName = ''web01'',
      Snapshots = snaps, setSizeWarningState = setW, setSizeCriticalState = setC\<rparr>"

text \<open>
  A set of two snapshots of 6 GB each, the first created on day 0, the second on
  day 35.
\<close>

definition six_GB_pair :: SnapshotSummarySet where
  "six_GB_pair =
     example_set [example_summary 6442450944 (day_instant 0) False False False False,
                  example_summary 6442450944 (day_instant 35) False False False False] True False"

text \<open>
  A set of one snapshot created on day 35, and a clock whose first reading is
  midnight of day 65 and whose later readings are one second after it.
\<close>

definition day_35_set :: SnapshotSummarySet where
  "day_35_set = example_set [example_summary 1024 (day_instant 35) False False False False] False False"

definition ticking_clock :: clock where
  "ticking_clock = day_instant 65 ## sconst \<lparr>sec = 65 * 86400 + 1, nsec = 0\<rparr>"

text \<open>
  A collection whose first set holds a size-critical snapshot and whose second set
  holds a snapshot that is age-warning only; and one whose sets are age-warning and
  age-critical.
\<close>

definition size_critical_and_age_warning :: SnapshotSummarySets where
  "size_critical_and_age_warning =
     [example_set [example_summary 32212254720 (day_instant 0) False False True True] True True,
      example_set [example_summary 1024 (day_instant 0) True False False False] False False]"

definition age_critical_and_age_warning :: SnapshotSummarySets where
  "age_critical_and_age_warning =
     [example_set [example_summary 1024 (day_instant 0) True False False False] False False,
      example_set [example_summary 1024 (day_instant 0) True True False False] False False]"

text \<open>
  The machine \<open>web01\<close>: a base disk, the delta disk written after the first snapshot
  and the delta disk written since the second, which is the current snapshot and the
  child of the first. The first snapshot is 40 days old at day 100, the second 5 days.
\<close>

definition snapshot_11 :: ManagedObjectReference where
  "snapshot_11 = \<lparr>mor_Type = ''VirtualMachineSnapshot'', mor_Value = ''snapshot-11''\<rparr>"

definition snapshot_12 :: ManagedObjectReference where
  "snapshot_12 = \<lparr>mor_Type = ''VirtualMachineSnapshot'', mor_Value = ''snapshot-12''\<rparr>"

definition web01_layout :: VirtualMachineFileLayoutEx where
  "web01_layout =
     \<lparr>layout_File =
        [\<lparr>file_Key = 0, file_Name = ''web01.vmx'', file_Type = ''config'', file_Size = 3000\<rparr>,
         \<lparr>file_Key = 1, file_Name = ''web01.vmdk'', file_Type = ''diskDescriptor'', file_Size = 500\<rparr>,
         \<lparr>file_Key = 2, file_Name = ''web01-flat.vmdk'', file_Type = ''diskExtent'', file_Size = 42949672960\<rparr>,
         \<lparr>file_Key = 3, file_Name = ''web01-000001.vmdk'', file_Type = ''diskDescriptor'', file_Size = 400\<rparr>,
         \<lparr>file_Key = 4, file_Name = ''web01-000001-delta.vmdk'', file_Type = ''diskExtent'', file_Size = 16106127360\<rparr>,
         \<lparr>file_Key = 5, file_Name = ''web01-Snapshot11.vmsn'', file_Type = ''snapshotData'', file_Size = 30000\<rparr>,
         \<lparr>file_Key = 6, file_Name = ''web01-000002.vmdk'', file_Type = ''diskDescriptor'', file_Size = 400\<rparr>,
         \<lparr>file_Key = 7, file_Name = ''web01-000002-delta.vmdk'', file_Type = ''diskExtent'', file_Size = 536870912\<rparr>,
         \<lparr>file_Key = 8, file_Name = ''web01-Snapshot12.vmsn'', file_Type = ''snapshotData'', file_Size = 30000\<rparr>],
      layout_Disk =
        [\<lparr>disk_Key = 2000, Chain = [\<lparr>FileKey = [1, 2]\<rparr>, \<lparr>FileKey = [3, 4]\<rparr>, \<lparr>FileKey = [6, 7]\<rparr>]\<rparr>],
      layout_Snapshot =
        [\<lparr>snap_Key = snapshot_11, DataKey = 5,
          snap_Disk = [\<lparr>disk_Key = 2000, Chain = [\<lparr>FileKey = [1, 2]\<rparr>]\<rparr>]\<rparr>,
         \<lparr>snap_Key = snapshot_12, DataKey = 8,
          snap_Disk = [\<lparr>disk_Key = 2000, Chain = [\<lparr>FileKey = [1, 2]\<rparr>, \<lparr>FileKey = [3, 4]\<rparr>]\<rparr>]\<rparr>]\<rparr>"

definition web01_trees :: "VirtualMachineSnapshotTree list" where
  "web01_trees =
     [VirtualMachineSnapshotTree snapshot_11 ''before-upgrade'' [] 1 (day_instant 60)
        [VirtualMachineSnapshotTree snapshot_12 ''after-upgrade'' [] 2 (day_instant 95) []]]"

definition web01 :: VirtualMachine where
  "web01 =
     \<lparr>vm_Self = \<lparr>mor_Type = ''VirtualMachine'', mor_Value = ''vm-7''\<rparr>,
      vm_Name = ''web01'',
      vm_Snapshot = Some \<lparr>CurrentSnapshot = Some snapshot_12, RootSnapshotList = web01_trees\<rparr>,
      vm_LayoutEx = Some web01_layout\<rparr>"

text \<open>The same machine with no current snapshot reference.\<close>

definition web01_no_current :: VirtualMachine where
  "web01_no_current =
     \<lparr>vm_Self = \<lparr>mor_Type = ''VirtualMachine'', mor_Value = ''vm-7''\<rparr>,
      vm_Name = ''web01'',
      vm_Snapshot = Some \<lparr>CurrentSnapshot = None, RootSnapshotList = web01_trees\<rparr>,
      vm_LayoutEx = Some web01_layout\<rparr>"

text \<open>
  The layout of the machine \<open>db01\<close>: one disk with no delta, and two snapshots whose
  disk chains are the chain of that disk.
\<close>

definition snapshot_21 :: ManagedObjectReference where
  "snapshot_21 = \<lparr>mor_Type = ''VirtualMachineSnapshot'', mor_Value = ''snapshot-21''\<rparr>"

definition snapshot_22 :: ManagedObjectReference where
  "snapshot_22 = \<lparr>mor_Type = ''VirtualMachineSnapshot'', mor_Value = ''snapshot-22''\<rparr>"

definition db01_disks :: "VirtualMachineFileLayoutExDiskLayout list" where
  "db01_disks = [\<lparr>disk_Key = 2000, Chain = [\<lparr>FileKey = [1, 2]\<rparr>]\<rparr>]"

definition db01_snapLayout :: VirtualMachineFileLayoutExSnapshotLayout where
  "db01_snapLayout = \<lparr>snap_Key = snapshot_21, DataKey = 5, snap_Disk = db01_disks\<rparr>"

definition db01_layout :: VirtualMachineFileLayoutEx where
  "db01_layout =
     \<lparr>layout_File =
        [\<lparr>file_Key = 1, file_Name = ''db01.vmdk'', file_Type = ''diskDescriptor'', file_Size = 500\<rparr>,
         \<lparr>file_Key = 2, file_Name = ''db01-flat.vmdk'', file_Type = ''diskExtent'', file_Size = 42949672960\<rparr>,
         \<lparr>file_Key = 5, file_Name = ''db01-Snapshot21.vmsn'', file_Type = ''snapshotData'', file_Size = 30000\<rparr>,
         \<lparr>file_Key = 8, file_Name = ''db01-Snapshot22.vmsn'', file_Type = ''snapshotData'', file_Size = 30000\<rparr>],
      layout_Disk = db01_disks,
      layout_Snapshot =
        [db01_snapLayout, \<lparr>snap_Key = snapshot_22, DataKey = 8, snap_Disk = db01_disks\<rparr>]\<rparr>"

text \<open>
  The machine \<open>big01\<close>: no disk, and two snapshots whose data files have \<open>2 ^ 62\<close>
  bytes each.
\<close>

definition big01 :: VirtualMachine where
  "big01 =
     \<lparr>vm_Self = \<lparr>mor_Type = ''VirtualMachine'', mor_Value = ''vm-9''\<rparr>,
      vm_Name = ''big01'',
      vm_Snapshot = Some
        \<lparr>CurrentSnapshot = Some snapshot_22,
         RootSnapshotList =
           [VirtualMachineSnapshotTree snapshot_21 ''first'' [] 1 (day_instant 60)
              [VirtualMachineSnapshotTree snapshot_22 ''second'' [] 2 (day_instant 95) []]]\<rparr>,
      vm_LayoutEx = Some
        \<lparr>layout_File =
           [\<lparr>file_Key = 5, file_Name = ''big01-Snapshot21.vmsn'', file_Type = ''snapshotData'',
             file_Size = 4611686018427387904\<rparr>,
            \<lparr>file_Key = 8, file_Name = ''big01-Snapshot22.vmsn'', file_Type = ''snapshotData'',
             file_Size = 4611686018427387904\<rparr>],
         layout_Disk = [],
         layout_Snapshot =
           [\<lparr>snap_Key = snapshot_21, DataKey = 5, snap_Disk = []\<rparr>,
            \<lparr>snap_Key = snapshot_22, DataKey = 8, snap_Disk = []\<rparr>]\<rparr>\<rparr>"

text \<open>
  The sets that \<open>NewSnapshotSummarySet\<close> returns for \<open>web01\<close> and \<open>big01\<close> at day 100,
  with age thresholds of 60 and 30 days and size thresholds of 20 and 10 GB.
\<close>

definition web01_set :: SnapshotSummarySet where
  "web01_set =
     \<lparr>VM = \<lparr>mor_Type = ''VirtualMachine'', mor_Value = ''vm-7''\<rparr>,
      set_VMName = ''web01'',
      Snapshots =
        [\<lparr>Name = ''before-upgrade'', MOID = ''snapshot-11'', Description = [],
          createTime = day_instant 60, Size = 30000, ID = 1,
          ageWarningState = True, ageCriticalState = False,
          sizeWarningState = False, sizeCriticalState = False, VMName = ''web01''\<rparr>,
         \<lparr>Name = ''after-upgrade'', MOID = ''snapshot-12'', Description = [],
          createTime = day_instant 95, Size = 16643029072, ID = 2,
          ageWarningState = False, ageCriticalState = False,
          sizeWarningState = False, sizeCriticalState = True, VMName = ''web01''\<rparr>],
      setSizeWarningState = True, setSizeCriticalState = False\<rparr>"

definition big01_set :: SnapshotSummarySet where
  "big01_set =
     \<lparr>VM = \<lparr>mor_Type = ''VirtualMachine'', mor_Value = ''vm-9''\<rparr>,
      set_VMName = ''big01'',
      Snapshots =
        [\<lparr>Name = ''first'', MOID = ''snapshot-21'', Description = [],
          createTime = day_instant 60, Size = 4611686018427387904, ID = 1,
          ageWarningState = True, ageCriticalState = False,
          sizeWarningState = True, sizeCriticalState = True, VMName = ''big01''\<rparr>,
         \<lparr>Name = ''second'', MOID = ''snapshot-22'', Description = [],
          createTime = day_instant 95, Size = 4611686018427387904, ID = 2,
          ageWarningState = False, ageCriticalState = False,
          sizeWarningState = True, sizeCriticalState = True, VMName = ''big01''\<rparr>],
      setSizeWarningState = False, setSizeCriticalState = False\<rparr>"

section \<open>Threshold evaluation\<close>

lemma sint_mult_GB:
  fixes g :: int64
  assumes "- (2 ^ 33) \<le> sint g" and "sint g < 2 ^ 33"
  shows "sint (g * GB) = sint g * 1024 ^ 3"
proof -
  have gb: "sint GB = 1024 ^ 3"
    by (simp add: GB_def)
  have lo: "- (2 ^ 63) \<le> sint g * (1024 ^ 3 :: int)"
    using assms(1) by simp
  have hi: "sint g * (1024 ^ 3 :: int) < 2 ^ 63"
    using assms(2) by simp
  have "sint (g * GB) = signed_take_bit 63 (sint g * sint GB)"
    by (simp add: sint_word_ariths)
  also have "\<dots> = sint g * 1024 ^ 3"
    unfolding gb using lo hi by (simp add: signed_take_bit_int_eq_self)
  finally show ?thesis .
qed

lemma ExceedsSize_exact:
  fixes s g :: int64
  assumes "- (2 ^ 33) \<le> sint g" and "sint g < 2 ^ 33"
  shows "ExceedsSize s g \<longleftrightarrow> sint g * 1024 ^ 3 < sint s"
  using sint_mult_GB [OF assms] by (simp add: ExceedsSize_def word_sless_alt)

text \<open>
  C7, as the claim states it, fails for a threshold whose byte value does not fit
  \<open>int64\<close>: the product with \<open>units.GB\<close> wraps around. With a threshold of
  \<open>2 ^ 33\<close> GB a size of zero bytes counts as exceeded.
\<close>

theorem ExceedsSize_wraps_counterexample:
  "ExceedsSize 0 8589934592 \<and> \<not> (sint (8589934592 :: int64) * 1024 ^ 3 < sint (0 :: int64))"
  by (simp add: ExceedsSize_def GB_def word_sless_alt)

text \<open>
  C7, amended. For a threshold \<open>g\<close> whose byte value fits \<open>int64\<close>
  (\<open>- 2 ^ 33 \<le> g < 2 ^ 33\<close>), \<open>ExceedsSize s g\<close> holds exactly when \<open>s\<close> is strictly
  greater than \<open>g * 1024 ^ 3\<close>; a size of exactly \<open>g * 1024 ^ 3\<close> bytes is not
  exceeded, and one byte more is.
\<close>

theorem ExceedsSize_binary_gigabyte:
  fixes s g :: int64
  assumes "- (2 ^ 33) \<le> sint g" and "sint g < 2 ^ 33"
  shows "(ExceedsSize s g \<longleftrightarrow> sint g * 1024 ^ 3 < sint s) \<and>
         \<not> ExceedsSize (g * GB) g \<and>
         sint (g * GB) = sint g * 1024 ^ 3 \<and>
         sint (g * GB + 1) = sint g * 1024 ^ 3 + 1 \<and>
         ExceedsSize (g * GB + 1) g"
proof -
  have m: "sint (g * GB) = sint g * 1024 ^ 3"
    using assms by (rule sint_mult_GB)
  have hi: "sint g * (1024 ^ 3 :: int) + 1 < 2 ^ 63"
    using assms(2) by simp
  have lo: "- (2 ^ 63) \<le> sint g * (1024 ^ 3 :: int) + 1"
    using assms(1) by simp
  have "sint (g * GB + 1) = signed_take_bit 63 (sint (g * GB) + sint (1 :: int64))"
    by (simp add: sint_word_ariths)
  also have "\<dots> = sint g * 1024 ^ 3 + 1"
    unfolding m using lo hi by (simp add: signed_take_bit_int_eq_self)
  finally have p: "sint (g * GB + 1) = sint g * 1024 ^ 3 + 1" .
  show ?thesis
    using m p by (simp add: ExceedsSize_def word_sless_alt)
qed

theorem ExceedsSize_binary_gigabyte_witness:
  "\<not> ExceedsSize 10737418240 10 \<and> ExceedsSize 10737418241 10 \<and>
   sint (10 * GB :: int64) = 10 * 1024 ^ 3"
  using ExceedsSize_binary_gigabyte [of 10 10737418241]
    ExceedsSize_binary_gigabyte [of 10 10737418240]
  by (simp add: GB_def)

lemma sint_days_back:
  fixes a n :: int64
  shows "sint (a - n * 86400) = signed_take_bit 63 (sint a - sint n * 86400)"
proof -
  have "a - n * 86400 = word_of_int (sint a - sint n * 86400)"
    by simp
  then show ?thesis
    by (simp only: sint_sbintrunc') simp
qed

lemma instant_AddDate_days:
  assumes "- (2 ^ 63) \<le> sint (sec now) - sint N * 86400"
    and "sint (sec now) - sint N * 86400 < 2 ^ 63"
  shows "instant (AddDate_days now (- N)) = days_ago now N"
  using assms
  by (simp add: instant_def days_ago_def AddDate_days_def sint_days_back
      signed_take_bit_int_eq_self)

lemma Before_earlier: "Before t u \<longleftrightarrow> earlier (instant t) (instant u)"
  by (auto simp: Before_def earlier_def instant_def word_sless_alt intro: signed_word_eqI)

lemma ExceedsAge_Before:
  "ExceedsAge clk t N = (Before t (AddDate_days (shd clk) (- N)), stl clk)"
  by (auto simp: ExceedsAge_def time_Now_def Let_def)

lemma earlier_irrefl: "\<not> earlier a a"
  by (simp add: earlier_def)

text \<open>
  C6, as the claim states it, fails for a day count whose seconds do not fit
  \<open>int64\<close>: \<open>AddDate\<close> wraps around. With \<open>N = 2 ^ 47\<close> the threshold lies in the
  future, and a snapshot created at the current instant counts as exceeded, though it
  is not before the current time minus \<open>N\<close> days.
\<close>

theorem ExceedsAge_wraps_counterexample:
  "fst (ExceedsAge (sconst (day_instant 100)) (day_instant 100) 140737488355328) \<and>
   \<not> earlier (instant (day_instant 100)) (days_ago (day_instant 100) 140737488355328)"
  by (simp add: ExceedsAge_Before Before_def AddDate_days_def day_instant_def
      earlier_def instant_def days_ago_def word_sless_alt)

text \<open>
  C6, amended. In a location whose offset from UTC does not change, where a day has 24
  hours: for a day count \<open>N\<close> such that the current time minus \<open>N\<close> days is
  representable (its seconds fit \<open>int64\<close>), \<open>ExceedsAge t N\<close> holds exactly when
  \<open>t\<close> is strictly before the current time, the reading of the clock, minus \<open>N\<close>
  days; for \<open>t\<close> equal to that instant it does not hold. The call takes one reading
  from the clock.
\<close>

theorem ExceedsAge_strictly_before:
  assumes "- (2 ^ 63) \<le> sint (sec (shd clk)) - sint N * 86400"
    and "sint (sec (shd clk)) - sint N * 86400 < 2 ^ 63"
  shows "(fst (ExceedsAge clk t N) \<longleftrightarrow> earlier (instant t) (days_ago (shd clk) N)) \<and>
         (instant t = days_ago (shd clk) N \<longrightarrow> \<not> fst (ExceedsAge clk t N)) \<and>
         snd (ExceedsAge clk t N) = stl clk"
  using instant_AddDate_days [OF assms]
  by (auto simp: ExceedsAge_Before Before_earlier earlier_irrefl)

theorem ExceedsAge_strictly_before_witness:
  "\<not> fst (ExceedsAge (sconst (day_instant 100)) (day_instant 70) 30) \<and>
   fst (ExceedsAge (sconst (day_instant 100)) \<lparr>sec = 70 * 86400 - 1, nsec = 0\<rparr> 30) \<and>
   instant (day_instant 70) = days_ago (day_instant 100) 30"
proof -
  have lo: "- (2 ^ 63) \<le> sint (sec (shd (sconst (day_instant 100)))) - sint (30 :: go_int) * 86400"
    by (simp add: day_instant_def)
  have hi: "sint (sec (shd (sconst (day_instant 100)))) - sint (30 :: go_int) * 86400 < 2 ^ 63"
    by (simp add: day_instant_def)
  show ?thesis
    using ExceedsAge_strictly_before [OF lo hi, of "day_instant 70"]
      ExceedsAge_strictly_before [OF lo hi, of "\<lparr>sec = 70 * 86400 - 1, nsec = 0\<rparr>"]
    by (simp add: day_instant_def instant_def days_ago_def earlier_def)
qed

section \<open>Loops as list functions\<close>

lemma range_returns_true_iff: "range_returns_true p xs \<longleftrightarrow> (\<exists>x\<in>set xs. p x)"
  by (induction xs) auto

lemma foldl_count:
  "foldl (\<lambda>n x. if p x then n + 1 else n) (n0 :: nat) xs = n0 + length (filter p xs)"
  by (induction xs arbitrary: n0) auto

lemma foldl_count_pair:
  "foldl (\<lambda>(a, b) x. if c x then (a + 1, b + f x) else (a, b)) (a0 :: nat, b0 :: nat) xs =
     (a0 + length (filter c xs), b0 + sum_list (map f (filter c xs)))"
  by (induction xs arbitrary: a0 b0) auto

lemma foldl_plus_sum_list:
  fixes a :: "'a :: comm_monoid_add"
  shows "foldl (\<lambda>s x. s + f x) a xs = a + sum_list (map f xs)"
  by (induction xs arbitrary: a) (auto simp: add.assoc)

lemma sum_list_filter_pos:
  "sum_list (map f (filter (\<lambda>x. 1 \<le> f x) xs)) = sum_list (map (f :: 'a \<Rightarrow> nat) xs)"
  by (induction xs) auto

lemma length_filter_concat:
  "length (filter p (concat xss)) = sum_list (map (\<lambda>xs. length (filter p xs)) xss)"
  by (induction xss) auto

text \<open>A sum of \<open>int64\<close> values is the exact sum, wrapped around once.\<close>

lemma sint_sum_list:
  fixes xs :: "int64 list"
  shows "sint (sum_list xs) = signed_take_bit 63 (\<Sum>x\<leftarrow>xs. sint x)"
proof (induction xs)
  case Nil
  show ?case by simp
next
  case (Cons x xs)
  have "sint (x + sum_list xs) = signed_take_bit 63 (sint x + sint (sum_list xs))"
    by (simp add: sint_word_ariths)
  also have "\<dots> = signed_take_bit 63 (sint x + signed_take_bit 63 (\<Sum>y\<leftarrow>xs. sint y))"
    by (simp add: Cons.IH)
  also have "\<dots> = signed_take_bit 63
      (signed_take_bit 63 (sint x) + signed_take_bit 63 (signed_take_bit 63 (\<Sum>y\<leftarrow>xs. sint y)))"
    by (simp only: signed_take_bit_add)
  also have "\<dots> = signed_take_bit 63 (signed_take_bit 63 (sint x) + signed_take_bit 63 (\<Sum>y\<leftarrow>xs. sint y))"
    by simp
  also have "\<dots> = signed_take_bit 63 (sint x + (\<Sum>y\<leftarrow>xs. sint y))"
    by (rule signed_take_bit_add)
  finally show ?case by simp
qed

section \<open>Aggregation\<close>

lemma SnapshotSummarySet_Size_eq:
  "SnapshotSummarySet_Size s = sum_list (map Size (Snapshots s))"
  by (simp add: SnapshotSummarySet_Size_def foldl_plus_sum_list)

text \<open>
  When the exact sum of the sizes fits \<open>int64\<close>, the cumulative size is that sum.
\<close>

lemma SnapshotSummarySet_Size_exact:
  assumes "- (2 ^ 63) \<le> (\<Sum>snap\<leftarrow>Snapshots s. sint (Size snap))"
    and "(\<Sum>snap\<leftarrow>Snapshots s. sint (Size snap)) < 2 ^ 63"
  shows "sint (SnapshotSummarySet_Size s) = (\<Sum>snap\<leftarrow>Snapshots s. sint (Size snap))"
  using assms sint_sum_list [of "map Size (Snapshots s)"]
  by (simp add: SnapshotSummarySet_Size_eq comp_def signed_take_bit_int_eq_self)

lemma SnapshotSummarySet_ExceedsSize_eq:
  "SnapshotSummarySet_ExceedsSize s sizeGB =
     length (filter (\<lambda>snap. ExceedsSize (Size snap) sizeGB) (Snapshots s))"
  by (simp add: SnapshotSummarySet_ExceedsSize_def SnapshotSummary_IsSizeExceeded_def foldl_count)

text \<open>
  The loops over snapshots and over sets, on a clock all of whose readings give every
  snapshot the same verdict \<open>P\<close>.
\<close>

lemma foldl_IsAgeExceeded:
  assumes "\<forall>r\<in>sset clk. \<forall>snap\<in>set snaps. Before (createTime snap) (AddDate_days r (- days)) = P snap"
  shows "\<exists>clk'. foldl (\<lambda>(numExceeded, clk) snap.
              case SnapshotSummary_IsAgeExceeded clk snap days of
                (exceeded, clk') \<Rightarrow> (if exceeded then numExceeded + 1 else numExceeded, clk'))
       (n0, clk) snaps = (n0 + length (filter P snaps), clk') \<and> sset clk' \<subseteq> sset clk"
  using assms
proof (induction snaps arbitrary: n0 clk)
  case Nil
  show ?case by simp
next
  case (Cons snap snaps)
  have here: "Before (createTime snap) (AddDate_days (shd clk) (- days)) = P snap"
    using Cons.prems stream.set_sel(1) [of clk] by simp
  have sub: "sset (stl clk) \<subseteq> sset clk"
    using stream.set_sel(2) by fastforce
  have later: "\<forall>r\<in>sset (stl clk). \<forall>snap\<in>set snaps.
      Before (createTime snap) (AddDate_days r (- days)) = P snap"
    using Cons.prems sub by auto
  obtain clk' where
    "foldl (\<lambda>(numExceeded, clk) snap.
              case SnapshotSummary_IsAgeExceeded clk snap days of
                (exceeded, clk') \<Rightarrow> (if exceeded then numExceeded + 1 else numExceeded, clk'))
       (if P snap then n0 + 1 else n0, stl clk) snaps =
     ((if P snap then n0 + 1 else n0) + length (filter P snaps), clk')"
    and "sset clk' \<subseteq> sset (stl clk)"
    using Cons.IH [OF later] by blast
  then show ?case
    using sub here
    by (auto simp: SnapshotSummary_IsAgeExceeded_def ExceedsAge_Before)
qed

lemma SnapshotSummarySet_ExceedsAge_stable:
  assumes "\<forall>r\<in>sset clk. \<forall>snap\<in>set (Snapshots s).
             Before (createTime snap) (AddDate_days r (- days)) = P snap"
  shows "\<exists>clk'. SnapshotSummarySet_ExceedsAge clk s days = (length (filter P (Snapshots s)), clk') \<and>
           sset clk' \<subseteq> sset clk"
  unfolding SnapshotSummarySet_ExceedsAge_def
  using foldl_IsAgeExceeded [OF assms, of 0] by simp

lemma foldl_sets_ExceedsAge:
  assumes "\<forall>r\<in>sset clk. \<forall>s\<in>set sss. \<forall>snap\<in>set (Snapshots s).
             Before (createTime snap) (AddDate_days r (- days)) = P snap"
  shows "fst (foldl (\<lambda>((setsExceeded, snapshotsExceeded), clk) s.
              case SnapshotSummarySet_ExceedsAge clk s days of
                (first, clk') \<Rightarrow>
                  if first \<ge> 1
                  then (case SnapshotSummarySet_ExceedsAge clk' s days of
                          (second, clk'') \<Rightarrow>
                            ((setsExceeded + 1, snapshotsExceeded + second), clk''))
                  else ((setsExceeded, snapshotsExceeded), clk'))
       ((a0, b0), clk) sss) =
     (a0 + length (filter (\<lambda>s. 1 \<le> length (filter P (Snapshots s))) sss),
      b0 + sum_list (map (\<lambda>s. length (filter P (Snapshots s)))
             (filter (\<lambda>s. 1 \<le> length (filter P (Snapshots s))) sss)))"
  using assms
proof (induction sss arbitrary: a0 b0 clk)
  case Nil
  show ?case by simp
next
  case (Cons s sss)
  let ?n = "length (filter P (Snapshots s))"
  have s: "\<forall>r\<in>sset clk. \<forall>snap\<in>set (Snapshots s).
             Before (createTime snap) (AddDate_days r (- days)) = P snap"
    using Cons.prems by simp
  obtain clk1 where first: "SnapshotSummarySet_ExceedsAge clk s days = (?n, clk1)"
    and sub1: "sset clk1 \<subseteq> sset clk"
    using SnapshotSummarySet_ExceedsAge_stable [OF s] by blast
  have s1: "\<forall>r\<in>sset clk1. \<forall>snap\<in>set (Snapshots s).
             Before (createTime snap) (AddDate_days r (- days)) = P snap"
    using s sub1 by auto
  obtain clk2 where second: "SnapshotSummarySet_ExceedsAge clk1 s days = (?n, clk2)"
    and sub2: "sset clk2 \<subseteq> sset clk1"
    using SnapshotSummarySet_ExceedsAge_stable [OF s1] by blast
  have rest1: "\<forall>r\<in>sset clk1. \<forall>s\<in>set sss. \<forall>snap\<in>set (Snapshots s).
             Before (createTime snap) (AddDate_days r (- days)) = P snap"
    using Cons.prems sub1 by auto
  have rest2: "\<forall>r\<in>sset clk2. \<forall>s\<in>set sss. \<forall>snap\<in>set (Snapshots s).
             Before (createTime snap) (AddDate_days r (- days)) = P snap"
    using rest1 sub2 by auto
  show ?case
  proof (cases "1 \<le> ?n")
    case True
    then show ?thesis
      using Cons.IH [OF rest2, of "a0 + 1" "b0 + ?n"] first second by simp
  next
    case False
    then show ?thesis
      using Cons.IH [OF rest1, of a0 b0] first by simp
  qed
qed

text \<open>
  C5, as the claim states it, fails in three ways. The second component of
  \<open>SnapshotSummarySets.ExceedsSize\<close> is the number of snapshots of the sets whose
  cumulative size exceeds the threshold, not the number of snapshots that exceed it:
  one set of two snapshots of 6 GB each, against 10 GB, gives one set and two
  snapshots, and none of the two is larger than 10 GB. The threshold in bytes wraps
  around: against \<open>2 ^ 33\<close> GB the same set of 12 GB is counted. And every call of
  \<open>ExceedsAge\<close> reads the clock: of two equal sets of one snapshot, which turns 30
  days old between the first and the second reading, one set is counted.
\<close>

theorem Exceeds_counts_counterexample:
  "SnapshotSummarySets_ExceedsSize [six_GB_pair] 10 = (1, 2) \<and>
   SnapshotSummarySet_ExceedsSize six_GB_pair 10 = 0 \<and>
   SnapshotSummarySets_ExceedsSize [six_GB_pair] 8589934592 = (1, 2) \<and>
   SnapshotSummarySet_Size six_GB_pair = 12884901888 \<and>
   fst (SnapshotSummarySets_ExceedsAge ticking_clock [day_35_set, day_35_set] 30) = (1, 1)"
  by (simp add: SnapshotSummarySets_ExceedsSize_def SnapshotSummarySet_ExceedsSize_def
      six_GB_pair_def example_set_def example_summary_def SnapshotSummarySet_Size_def
      SnapshotSummary_IsSizeExceeded_def ExceedsSize_def GB_def word_sless_alt
      SnapshotSummarySets_ExceedsAge_def SnapshotSummarySet_ExceedsAge_def
      SnapshotSummary_IsAgeExceeded_def ExceedsAge_Before Before_def AddDate_days_def
      day_35_set_def ticking_clock_def day_instant_def)

text \<open>
  C5, amended. For a size threshold \<open>g\<close> whose byte value fits \<open>int64\<close>,
  \<open>SnapshotSummarySets.ExceedsSize\<close> returns the number of sets whose \<open>Size()\<close> is
  strictly greater than \<open>g * 1024 ^ 3\<close> and the total number of snapshots held by those
  sets. In a location whose offset from UTC does not change: for a day count \<open>N\<close>
  and a clock such that every reading minus \<open>N\<close> days is
  representable and every reading gives every snapshot of the collection the verdict
  of the first reading (no snapshot crosses the threshold while the call runs),
  \<open>SnapshotSummarySets.ExceedsAge\<close> returns the number of sets that hold at least one
  snapshot created strictly before the first reading minus \<open>N\<close> days, and the total
  number of such snapshots.
\<close>

theorem SnapshotSummarySets_Exceeds_counts:
  assumes "- (2 ^ 33) \<le> sint sizeGB" and "sint sizeGB < 2 ^ 33"
    and "\<forall>r\<in>sset clk. - (2 ^ 63) \<le> sint (sec r) - sint days * 86400 \<and>
                        sint (sec r) - sint days * 86400 < 2 ^ 63"
    and "\<forall>r\<in>sset clk. \<forall>s\<in>set sss. \<forall>snap\<in>set (Snapshots s).
           old_at r days snap = old_at (shd clk) days snap"
  shows "SnapshotSummarySets_ExceedsSize sss sizeGB =
           (length (filter (\<lambda>s. sint sizeGB * 1024 ^ 3 < sint (SnapshotSummarySet_Size s)) sss),
            sum_list (map (\<lambda>s. length (Snapshots s))
              (filter (\<lambda>s. sint sizeGB * 1024 ^ 3 < sint (SnapshotSummarySet_Size s)) sss))) \<and>
         fst (SnapshotSummarySets_ExceedsAge clk sss days) =
           (length (filter (\<lambda>s. \<exists>snap\<in>set (Snapshots s). old_at (shd clk) days snap) sss),
            length (filter (old_at (shd clk) days) (concat (map Snapshots sss))))"
proof
  have "SnapshotSummarySets_ExceedsSize sss sizeGB =
     (length (filter (\<lambda>s. ExceedsSize (SnapshotSummarySet_Size s) sizeGB) sss),
      sum_list (map (\<lambda>s. length (Snapshots s))
        (filter (\<lambda>s. ExceedsSize (SnapshotSummarySet_Size s) sizeGB) sss)))"
    unfolding SnapshotSummarySets_ExceedsSize_def ExceedsSize_def
    by (simp add: foldl_count_pair)
  then show "SnapshotSummarySets_ExceedsSize sss sizeGB =
           (length (filter (\<lambda>s. sint sizeGB * 1024 ^ 3 < sint (SnapshotSummarySet_Size s)) sss),
            sum_list (map (\<lambda>s. length (Snapshots s))
              (filter (\<lambda>s. sint sizeGB * 1024 ^ 3 < sint (SnapshotSummarySet_Size s)) sss)))"
    by (simp add: ExceedsSize_exact [OF assms(1,2)])
next
  let ?old = "old_at (shd clk) days"
  let ?n = "\<lambda>s. length (filter ?old (Snapshots s))"
  have before: "Before t (AddDate_days r (- days)) \<longleftrightarrow> earlier (instant t) (days_ago r days)"
    if "r \<in> sset clk" for r t
    using assms(3) that by (simp add: Before_earlier instant_AddDate_days)
  have stable: "\<forall>r\<in>sset clk. \<forall>s\<in>set sss. \<forall>snap\<in>set (Snapshots s).
             Before (createTime snap) (AddDate_days r (- days)) = ?old snap"
    using assms(4) before by (simp add: old_at_def)
  have sets: "(\<lambda>s. 1 \<le> ?n s) = (\<lambda>s. \<exists>snap\<in>set (Snapshots s). ?old snap)"
    by (auto simp: fun_eq_iff Suc_le_eq length_greater_0_conv filter_empty_conv)
  have "fst (SnapshotSummarySets_ExceedsAge clk sss days) =
          (length (filter (\<lambda>s. 1 \<le> ?n s) sss), sum_list (map ?n (filter (\<lambda>s. 1 \<le> ?n s) sss)))"
    unfolding SnapshotSummarySets_ExceedsAge_def
    using foldl_sets_ExceedsAge [OF stable, of 0 0] by simp
  also have "sum_list (map ?n (filter (\<lambda>s. 1 \<le> ?n s) sss)) = sum_list (map ?n sss)"
    by (rule sum_list_filter_pos)
  also have "sum_list (map ?n sss) = length (filter ?old (concat (map Snapshots sss)))"
    by (simp add: length_filter_concat comp_def)
  finally show "fst (SnapshotSummarySets_ExceedsAge clk sss days) =
           (length (filter (\<lambda>s. \<exists>snap\<in>set (Snapshots s). ?old snap) sss),
            length (filter ?old (concat (map Snapshots sss))))"
    unfolding sets .
qed

theorem SnapshotSummarySets_Exceeds_counts_witness:
  "SnapshotSummarySets_ExceedsSize [six_GB_pair] 10 = (1, 2) \<and>
   fst (SnapshotSummarySets_ExceedsAge ticking_clock [six_GB_pair] 31) = (1, 1)"
proof -
  have a: "- (2 ^ 33) \<le> sint (10 :: go_int)" by simp
  have b: "sint (10 :: go_int) < 2 ^ 33" by simp
  have c: "\<forall>r\<in>sset ticking_clock. - (2 ^ 63) \<le> sint (sec r) - sint (31 :: go_int) * 86400 \<and>
                        sint (sec r) - sint (31 :: go_int) * 86400 < 2 ^ 63"
    by (simp add: ticking_clock_def day_instant_def)
  have d: "\<forall>r\<in>sset ticking_clock. \<forall>s\<in>set [six_GB_pair]. \<forall>snap\<in>set (Snapshots s).
           old_at r 31 snap = old_at (shd ticking_clock) 31 snap"
    by (simp add: ticking_clock_def day_instant_def six_GB_pair_def example_set_def
        example_summary_def old_at_def instant_def days_ago_def earlier_def)
  show ?thesis
    using SnapshotSummarySets_Exceeds_counts [OF a b c d]
    by (simp add: six_GB_pair_def example_set_def example_summary_def SnapshotSummarySet_Size_def
        ticking_clock_def day_instant_def old_at_def instant_def days_ago_def earlier_def)
qed

lemma SnapshotSummarySets_IsCriticalState_iff:
  "SnapshotSummarySets_IsCriticalState sss \<longleftrightarrow>
     (\<exists>s\<in>set sss. \<exists>snap\<in>set (Snapshots s). ageCriticalState snap \<or> sizeCriticalState snap)"
  by (simp add: SnapshotSummarySets_IsCriticalState_def SnapshotSummarySet_IsCriticalState_def
      SnapshotSummary_IsCriticalState_def range_returns_true_iff)

lemma SnapshotSummarySets_IsWarningState_iff:
  "SnapshotSummarySets_IsWarningState sss \<longleftrightarrow>
     (\<exists>s\<in>set sss. \<exists>snap\<in>set (Snapshots s). ageWarningState snap \<or> sizeWarningState snap)"
  by (simp add: SnapshotSummarySets_IsWarningState_def SnapshotSummarySet_IsWarningState_def
      SnapshotSummary_IsWarningState_def range_returns_true_iff)

lemma SnapshotSummarySets_IsAgeCriticalState_iff:
  "SnapshotSummarySets_IsAgeCriticalState sss \<longleftrightarrow>
     (\<exists>s\<in>set sss. \<exists>snap\<in>set (Snapshots s). ageCriticalState snap)"
  by (simp add: SnapshotSummarySets_IsAgeCriticalState_def SnapshotSummarySet_IsAgeCriticalState_def
      SnapshotSummary_IsAgeCriticalState_def range_returns_true_iff)

lemma SnapshotSummarySets_IsAgeWarningState_iff:
  "SnapshotSummarySets_IsAgeWarningState sss \<longleftrightarrow>
     (\<exists>s\<in>set sss. \<exists>snap\<in>set (Snapshots s). ageWarningState snap)"
  by (simp add: SnapshotSummarySets_IsAgeWarningState_def SnapshotSummarySet_IsAgeWarningState_def
      SnapshotSummary_IsAgeWarningState_def range_returns_true_iff)

text \<open>
  C9, as the claim states it, fails for the verdict: the switch of the snapshots age
  plugin looks at the age flags only. A collection with a size-critical snapshot in one
  set and an age-warning snapshot in another is in critical state, and the plugin
  reports warning.
\<close>

theorem verdict_counterexample:
  "SnapshotSummarySets_IsCriticalState size_critical_and_age_warning \<and>
   main_ExitStatusCode size_critical_and_age_warning = StateWARNINGExitCode"
  by (simp add: size_critical_and_age_warning_def example_set_def example_summary_def
      main_ExitStatusCode_def
      SnapshotSummarySets_IsCriticalState_def SnapshotSummarySet_IsCriticalState_def
      SnapshotSummary_IsCriticalState_def
      SnapshotSummarySets_IsAgeCriticalState_def SnapshotSummarySet_IsAgeCriticalState_def
      SnapshotSummary_IsAgeCriticalState_def
      SnapshotSummarySets_IsAgeWarningState_def SnapshotSummarySet_IsAgeWarningState_def
      SnapshotSummary_IsAgeWarningState_def)

text \<open>
  C9, amended. \<open>IsCriticalState\<close> of a collection holds exactly when some snapshot of
  some set has its age-critical or size-critical flag set, and \<open>IsWarningState\<close>
  exactly when some snapshot has its age-warning or size-warning flag set. The verdict
  of the snapshots age plugin puts critical over warning over ok on the age flags:
  critical when some snapshot is age-critical, also when other sets are only in
  warning; otherwise warning when some snapshot is age-warning; otherwise ok.
\<close>

theorem aggregate_states_and_age_verdict:
  "(SnapshotSummarySets_IsCriticalState sss \<longleftrightarrow>
      (\<exists>s\<in>set sss. \<exists>snap\<in>set (Snapshots s). ageCriticalState snap \<or> sizeCriticalState snap)) \<and>
   (SnapshotSummarySets_IsWarningState sss \<longleftrightarrow>
      (\<exists>s\<in>set sss. \<exists>snap\<in>set (Snapshots s). ageWarningState snap \<or> sizeWarningState snap)) \<and>
   main_ExitStatusCode sss =
     (if \<exists>s\<in>set sss. \<exists>snap\<in>set (Snapshots s). ageCriticalState snap then StateCRITICALExitCode
      else if \<exists>s\<in>set sss. \<exists>snap\<in>set (Snapshots s). ageWarningState snap then StateWARNINGExitCode
      else StateOKExitCode)"
  unfolding main_ExitStatusCode_def SnapshotSummarySets_IsAgeCriticalState_iff
    SnapshotSummarySets_IsAgeWarningState_iff
  using SnapshotSummarySets_IsCriticalState_iff SnapshotSummarySets_IsWarningState_iff
  by blast

theorem aggregate_states_and_age_verdict_witness:
  "SnapshotSummarySets_IsCriticalState age_critical_and_age_warning \<and>
   SnapshotSummarySets_IsWarningState age_critical_and_age_warning \<and>
   main_ExitStatusCode age_critical_and_age_warning = StateCRITICALExitCode \<and>
   main_ExitStatusCode size_critical_and_age_warning = StateWARNINGExitCode"
  using aggregate_states_and_age_verdict [of age_critical_and_age_warning]
    aggregate_states_and_age_verdict [of size_critical_and_age_warning]
  by (simp add: age_critical_and_age_warning_def size_critical_and_age_warning_def
      example_set_def example_summary_def)

text \<open>
  C10. A set with no snapshots has size 0 and is in none of the warning, critical,
  age-warning and age-critical states; the empty collection is in none of the six
  aggregate states, and the plugin reports ok for it.
\<close>

theorem empty_set_and_collection:
  assumes "Snapshots s = []"
  shows "SnapshotSummarySet_Size s = 0 \<and>
         \<not> SnapshotSummarySet_IsWarningState s \<and>
         \<not> SnapshotSummarySet_IsCriticalState s \<and>
         \<not> SnapshotSummarySet_IsAgeWarningState s \<and>
         \<not> SnapshotSummarySet_IsAgeCriticalState s \<and>
         \<not> SnapshotSummarySets_IsWarningState [] \<and>
         \<not> SnapshotSummarySets_IsCriticalState [] \<and>
         \<not> SnapshotSummarySets_IsAgeWarningState [] \<and>
         \<not> SnapshotSummarySets_IsAgeCriticalState [] \<and>
         \<not> SnapshotSummarySets_IsSizeWarningState [] \<and>
         \<not> SnapshotSummarySets_IsSizeCriticalState [] \<and>
         main_ExitStatusCode [] = StateOKExitCode"
  using assms
  by (simp add: SnapshotSummarySet_Size_def SnapshotSummarySet_IsWarningState_def
      SnapshotSummarySet_IsCriticalState_def SnapshotSummarySet_IsAgeWarningState_def
      SnapshotSummarySet_IsAgeCriticalState_def SnapshotSummarySets_IsWarningState_def
      SnapshotSummarySets_IsCriticalState_def SnapshotSummarySets_IsAgeWarningState_def
      SnapshotSummarySets_IsAgeCriticalState_def SnapshotSummarySets_IsSizeWarningState_def
      SnapshotSummarySets_IsSizeCriticalState_def main_ExitStatusCode_def)

theorem empty_set_and_collection_witness:
  "Snapshots (example_set [] False False) = [] \<and>
   SnapshotSummarySet_Size (example_set [] False False) = 0 \<and>
   \<not> SnapshotSummarySet_IsWarningState (example_set [] False False) \<and>
   \<not> SnapshotSummarySet_IsCriticalState (example_set [] False False) \<and>
   main_ExitStatusCode [] = StateOKExitCode"
proof -
  have e: "Snapshots (example_set [] False False) = []"
    by (simp add: example_set_def)
  show ?thesis
    using e empty_set_and_collection [OF e] by simp
qed

section \<open>Size attribution\<close>

lemma removeFileKey_remove1: "removeFileKey l key = remove1 key l"
  by (induction l) auto

text \<open>Removing a list of keys one after the other is multiset difference.\<close>

lemma mset_foldl_removeFileKey: "mset (foldl removeFileKey xs ys) = mset xs - mset ys"
proof (induction ys arbitrary: xs)
  case Nil
  show ?case by simp
next
  case (Cons y ys)
  have "mset (foldl removeFileKey (removeFileKey xs y) ys) = mset (remove1 y xs) - mset ys"
    by (simp add: Cons.IH removeFileKey_remove1)
  also have "\<dots> = mset xs - mset (y # ys)"
    by simp
  finally show ?case by simp
qed

lemma foldl_append_FileKey:
  "foldl (\<lambda>keys link. keys @ FileKey link) keys links = keys @ concat (map FileKey links)"
  by (induction links arbitrary: keys) auto

lemma appendChainFileKeys_eq: "appendChainFileKeys keys disks = keys @ chain_keys disks"
  unfolding appendChainFileKeys_def chain_keys_def
  by (induction disks arbitrary: keys) (auto simp: foldl_append_FileKey)

lemma collectFileKeys_foldl:
  "foldl (\<lambda>(snapshotDiskFileKeys, parentSnapshotDiskFileKeys) snapLayout.
              (if mor_Value (snap_Key snapLayout) = mor_Value snapshot
               then appendChainFileKeys (snapshotDiskFileKeys @ [DataKey snapLayout]) (snap_Disk snapLayout)
               else snapshotDiskFileKeys,
               case parent of
                 None \<Rightarrow> parentSnapshotDiskFileKeys
               | Some p \<Rightarrow>
                   if mor_Value (snap_Key snapLayout) = mor_Value p
                   then appendChainFileKeys parentSnapshotDiskFileKeys (snap_Disk snapLayout)
                   else parentSnapshotDiskFileKeys))
       (ks, ps) layouts =
   (ks @ this_snapshot_keys \<lparr>layout_File = fs, layout_Disk = ds, layout_Snapshot = layouts\<rparr> snapshot,
    ps @ parent_disk_keys \<lparr>layout_File = fs, layout_Disk = ds, layout_Snapshot = layouts\<rparr> parent)"
proof (induction layouts arbitrary: ks ps)
  case Nil
  show ?case
    by (simp add: this_snapshot_keys_def parent_disk_keys_def layouts_of_def split: option.split)
next
  case (Cons l layouts)
  show ?case
    by (simp add: Cons.IH appendChainFileKeys_eq this_snapshot_keys_def parent_disk_keys_def
        layouts_of_def split: option.split)
qed

lemma collectFileKeys_eq:
  "collectFileKeys snapshot parent (layout_Snapshot layoutEx) =
     (this_snapshot_keys layoutEx snapshot, parent_disk_keys layoutEx parent)"
proof -
  obtain fs ds ls where l: "layoutEx = \<lparr>layout_File = fs, layout_Disk = ds, layout_Snapshot = ls\<rparr>"
    by (cases layoutEx) auto
  show ?thesis
    unfolding collectFileKeys_def l
    using collectFileKeys_foldl [of snapshot parent "[]" "[]" ls fs ds] by simp
qed

lemma summed_size_foldl:
  "foldl (\<lambda>snapshotSize fileKey. snapshotSize + fileKeyMap_Size (fileKeyMap env) fileKey) a keys =
     a + summed_size env (mset keys)"
proof -
  have "sum_list (map (fileKeyMap_Size (fileKeyMap env)) keys) = summed_size env (mset keys)"
    unfolding summed_size_def by (metis mset_map sum_mset_sum_list)
  then show ?thesis
    by (simp add: foldl_plus_sum_list)
qed

lemma snapshotSize_of_eq:
  "snapshotSize_of env layoutEx currentSnapshot snapshot parent =
     summed_size env
       (mset (this_snapshot_keys layoutEx snapshot) -
        mset (case parent of None \<Rightarrow> vmAllDiskFileKeys env | Some p \<Rightarrow> parent_disk_keys layoutEx parent)) +
     (if mor_Value snapshot = mor_Value currentSnapshot
      then summed_size env (mset (vmAllDiskFileKeys env) - mset (this_snapshot_keys layoutEx snapshot))
      else 0)"
  unfolding snapshotSize_of_def collectFileKeys_eq
  by (simp add: summed_size_foldl mset_foldl_removeFileKey split: option.split)

lemma vmAllDiskFileKeys_captured:
  "vmAllDiskFileKeys (captured_variables layoutEx ageCritical ageWarning sizeCritical sizeWarning) =
     chain_keys (layout_Disk layoutEx)"
  by (simp add: captured_variables_def appendChainFileKeys_eq)

lemmas db01_defs =
  captured_variables_def snapshotSize_of_def collectFileKeys_def appendChainFileKeys_def
  fileKeyMap_Size_def db01_layout_def db01_snapLayout_def db01_disks_def snapshot_21_def
  snapshot_22_def


text \<open>
  C3, as the claim states it, fails: pruning the attached disk file keys leaves the
  key of the snapshot's data file, as the comment in the source says, and the size of
  that file is attributed. On \<open>db01\<close> the root snapshot 21 is not the current snapshot
  22, its disk chains are those of the machine, and its attributed size is the 30000
  bytes of its data file.
\<close>

theorem root_isolation_counterexample:
  "snap_Disk db01_snapLayout = layout_Disk db01_layout \<and>
   mor_Value snapshot_21 \<noteq> mor_Value snapshot_22 \<and>
   snapshotSize_of (captured_variables db01_layout 60 30 20 10)
     db01_layout snapshot_22 snapshot_21 None = 30000"
  by (simp add: db01_defs)

text \<open>
  C3, amended. For a root snapshot node (no parent) that is not the machine's current
  snapshot, that has one snapshot layout entry, and whose disk chains are identical to
  the machine's currently attached disk chains, the attributed size is the size that
  the file index records for the snapshot's data file (0 when the index has no file
  of that key).
\<close>

theorem root_isolation_leaves_data_file:
  assumes "layouts_of layoutEx snapshot = [snapLayout]"
    and "snap_Disk snapLayout = layout_Disk layoutEx"
    and "mor_Value snapshot \<noteq> mor_Value currentSnapshot"
  shows "snapshotSize_of
           (captured_variables layoutEx ageCritical ageWarning sizeCritical sizeWarning)
           layoutEx currentSnapshot snapshot None =
         fileKeyMap_Size
           (fileKeyMap (captured_variables layoutEx ageCritical ageWarning sizeCritical sizeWarning))
           (DataKey snapLayout)"
proof -
  let ?env = "captured_variables layoutEx ageCritical ageWarning sizeCritical sizeWarning"
  have keys: "this_snapshot_keys layoutEx snapshot = DataKey snapLayout # chain_keys (layout_Disk layoutEx)"
    using assms(1,2) by (simp add: this_snapshot_keys_def)
  have "mset (this_snapshot_keys layoutEx snapshot) - mset (vmAllDiskFileKeys ?env) =
          {#DataKey snapLayout#}"
    unfolding keys vmAllDiskFileKeys_captured by simp
  then show ?thesis
    using assms(3) by (simp add: snapshotSize_of_eq summed_size_def)
qed

theorem root_isolation_leaves_data_file_witness:
  "layouts_of db01_layout snapshot_21 = [db01_snapLayout] \<and>
   snap_Disk db01_snapLayout = layout_Disk db01_layout \<and>
   mor_Value snapshot_21 \<noteq> mor_Value snapshot_22 \<and>
   snapshotSize_of (captured_variables db01_layout 60 30 20 10)
     db01_layout snapshot_22 snapshot_21 None = 30000"
proof -
  have a: "layouts_of db01_layout snapshot_21 = [db01_snapLayout]"
    by (simp add: layouts_of_def db01_defs)
  have b: "snap_Disk db01_snapLayout = layout_Disk db01_layout"
    by (simp add: db01_defs)
  have c: "mor_Value snapshot_21 \<noteq> mor_Value snapshot_22"
    by (simp add: db01_defs)
  have "fileKeyMap_Size
          (fileKeyMap (captured_variables db01_layout 60 30 20 10))
          (DataKey db01_snapLayout) = 30000"
    by (simp add: db01_defs)
  then show ?thesis
    using a b c root_isolation_leaves_data_file [OF a b c, of 60 30 20 10]
    by simp
qed



section \<open>The walk over the snapshot forest\<close>

text \<open>
  On a machine whose snapshot info, current snapshot reference and layout are present,
  \<open>crawlFunc\<close> returns, and appends one summary for every node of the forest, in
  pre-order, each computed with the reference of the node's parent.
\<close>

lemma crawlFunc_preorder:
  assumes "vm_Snapshot vm = Some info" and "CurrentSnapshot info = Some currentSnapshot"
    and "vm_LayoutEx vm = Some layoutEx"
  shows "crawlFunc env vm snapTrees parent state =
           Inr (foldl (append_summary env vm layoutEx currentSnapshot) state
                  (preorder parent snapTrees))"
  using assms
  by (induction env vm snapTrees parent state rule: crawlFunc.induct)
    (simp_all add: append_summary_def)

lemma length_preorder: "length (preorder parent snapTrees) = nodes snapTrees"
  by (induction parent snapTrees rule: preorder.induct) simp_all

lemma snapshotSummary_of_fields:
  "MOID (fst (snapshotSummary_of env clk vm layoutEx currentSnapshot snapTree parent)) =
     mor_Value (tree_Snapshot snapTree) \<and>
   Size (fst (snapshotSummary_of env clk vm layoutEx currentSnapshot snapTree parent)) =
     snapshotSize_of env layoutEx currentSnapshot (tree_Snapshot snapTree) parent \<and>
   sizeWarningState (fst (snapshotSummary_of env clk vm layoutEx currentSnapshot snapTree parent)) =
     ExceedsSize (snapshotSize_of env layoutEx currentSnapshot (tree_Snapshot snapTree) parent)
       (snapshotsSizeCritical env) \<and>
   sizeCriticalState (fst (snapshotSummary_of env clk vm layoutEx currentSnapshot snapTree parent)) =
     ExceedsSize (snapshotSize_of env layoutEx currentSnapshot (tree_Snapshot snapTree) parent)
       (snapshotsSizeWarning env)"
  by (simp add: snapshotSummary_of_def Let_def split_def)

lemma fst_append_summary:
  "fst (append_summary env vm layoutEx currentSnapshot state node) =
     fst state @ [fst (snapshotSummary_of env (snd state) vm layoutEx currentSnapshot (fst node) (snd node))]"
  by (simp add: append_summary_def split_def)

lemma foldl_append_summary_fields:
  "map MOID (fst (foldl (append_summary env vm layoutEx currentSnapshot) state visited)) =
     map MOID (fst state) @ map (\<lambda>(snapTree, parent). mor_Value (tree_Snapshot snapTree)) visited \<and>
   map Size (fst (foldl (append_summary env vm layoutEx currentSnapshot) state visited)) =
     map Size (fst state) @
     map (\<lambda>(snapTree, parent).
            snapshotSize_of env layoutEx currentSnapshot (tree_Snapshot snapTree) parent) visited"
proof (induction visited arbitrary: state)
  case Nil
  show ?case by simp
next
  case (Cons node visited)
  show ?case
    using snapshotSummary_of_fields [of env "snd state" vm layoutEx currentSnapshot "fst node" "snd node"]
    by (simp add: Cons.IH fst_append_summary split_def)
qed

text \<open>
  On a machine whose snapshot info, current snapshot reference and layout are present,
  \<open>NewSnapshotSummarySet\<close> returns; its summaries are those of the nodes of the forest
  in pre-order, one for each node, and the size of each is computed with the reference
  of the node's parent.
\<close>

lemma NewSnapshotSummarySet_preorder:
  assumes "vm_Snapshot vm = Some info" and "CurrentSnapshot info = Some currentSnapshot"
    and "vm_LayoutEx vm = Some layoutEx"
  shows "\<exists>s clk'. NewSnapshotSummarySet clk vm ageCritical ageWarning sizeCritical sizeWarning =
             Inr (s, clk') \<and>
           (Snapshots s, clk') =
             foldl (append_summary
                      (captured_variables layoutEx ageCritical ageWarning sizeCritical sizeWarning)
                      vm layoutEx currentSnapshot)
               ([], stl clk) (preorder None (RootSnapshotList info)) \<and>
           length (Snapshots s) = nodes (RootSnapshotList info) \<and>
           map MOID (Snapshots s) =
             map (\<lambda>(snapTree, parent). mor_Value (tree_Snapshot snapTree))
               (preorder None (RootSnapshotList info)) \<and>
           map Size (Snapshots s) =
             map (\<lambda>(snapTree, parent).
                    snapshotSize_of
                      (captured_variables layoutEx ageCritical ageWarning sizeCritical sizeWarning)
                      layoutEx currentSnapshot (tree_Snapshot snapTree) parent)
               (preorder None (RootSnapshotList info))"
proof -
  let ?env = "captured_variables layoutEx ageCritical ageWarning sizeCritical sizeWarning"
  let ?end = "foldl (append_summary ?env vm layoutEx currentSnapshot) ([], stl clk)
                (preorder None (RootSnapshotList info))"
  have fields:
    "map MOID (fst ?end) =
       map (\<lambda>(snapTree, parent). mor_Value (tree_Snapshot snapTree))
         (preorder None (RootSnapshotList info))"
    "map Size (fst ?end) =
       map (\<lambda>(snapTree, parent).
              snapshotSize_of ?env layoutEx currentSnapshot (tree_Snapshot snapTree) parent)
         (preorder None (RootSnapshotList info))"
    using foldl_append_summary_fields [of ?env vm layoutEx currentSnapshot "([], stl clk)"
        "preorder None (RootSnapshotList info)"]
    by simp_all
  have "length (fst ?end) = length (map MOID (fst ?end))"
    by simp
  also have "\<dots> = nodes (RootSnapshotList info)"
    unfolding fields(1) by (simp add: length_preorder)
  finally have len: "length (fst ?end) = nodes (RootSnapshotList info)" .
  show ?thesis
    using fields len assms
    by (simp add: NewSnapshotSummarySet_def time_Now_def crawlFunc_preorder [OF assms] Let_def
        split_def)
qed

text \<open>Without a current snapshot reference the walk panics at the first node.\<close>

lemma crawlFunc_no_current:
  assumes "vm_Snapshot vm = Some info" and "CurrentSnapshot info = None" and "snapTrees \<noteq> []"
  shows "crawlFunc env vm snapTrees parent state = Inl NilPointerDereference"
proof -
  obtain snapTree rest where l: "snapTrees = snapTree # rest"
    using assms(3) by (cases snapTrees) auto
  show ?thesis
    unfolding l using assms(1,2) by (cases snapTree) simp
qed

text \<open>
  C8. The claim asks for one summary per node of every forest. On \<open>web01\<close> without a
  current snapshot reference, a forest of two nodes, \<open>NewSnapshotSummarySet\<close> panics
  and returns no summary: the body of the loop reads
  \<open>vm.Snapshot.CurrentSnapshot.Value\<close> with no nil check, which the function does make
  before the walk. (With the reference present the walk is as claimed:
  \<open>NewSnapshotSummarySet_preorder\<close>.)
\<close>

theorem walk_panics_without_current_snapshot:
  "NewSnapshotSummarySet (sconst (day_instant 100)) web01_no_current 60 30 20 10 =
     Inl NilPointerDereference \<and>
   nodes web01_trees = 2"
  by (simp add: NewSnapshotSummarySet_def time_Now_def web01_no_current_def web01_trees_def)

section \<open>Flags and set size of \<open>NewSnapshotSummarySet\<close>\<close>

text \<open>
  Every summary that \<open>NewSnapshotSummarySet\<close> returns has its size warning flag
  computed from the critical threshold and its size critical flag from the warning
  threshold.
\<close>

lemma crawlFunc_size_flags:
  assumes "crawlFunc env vm snapTrees parent state = Inr out"
    and "\<forall>snap\<in>set (fst state).
           sizeWarningState snap = ExceedsSize (Size snap) (snapshotsSizeCritical env) \<and>
           sizeCriticalState snap = ExceedsSize (Size snap) (snapshotsSizeWarning env)"
  shows "\<forall>snap\<in>set (fst out).
           sizeWarningState snap = ExceedsSize (Size snap) (snapshotsSizeCritical env) \<and>
           sizeCriticalState snap = ExceedsSize (Size snap) (snapshotsSizeWarning env)"
  using assms
proof (induction env vm snapTrees parent state arbitrary: out rule: crawlFunc.induct)
  case (1 env vm parent state)
  then show ?case by simp
next
  case (2 env vm snapshot name description ident created children snapTrees parent state)
  let ?node = "VirtualMachineSnapshotTree snapshot name description ident created children"
  from "2.prems"(1) obtain info currentSnapshot layoutEx mid where
    i: "vm_Snapshot vm = Some info" and c: "CurrentSnapshot info = Some currentSnapshot"
    and l: "vm_LayoutEx vm = Some layoutEx"
    and m: "crawlFunc env vm children (Some snapshot)
             (case snapshotSummary_of env (snd state) vm layoutEx currentSnapshot ?node parent of
                (summary, clk') \<Rightarrow> (fst state @ [summary], clk')) = Inr mid"
    and r: "crawlFunc env vm snapTrees parent mid = Inr out"
    by (auto split: option.splits sum.splits)
  have "\<forall>snap\<in>set (fst mid).
           sizeWarningState snap = ExceedsSize (Size snap) (snapshotsSizeCritical env) \<and>
           sizeCriticalState snap = ExceedsSize (Size snap) (snapshotsSizeWarning env)"
    using "2.IH"(1) [OF i c l m] "2.prems"(2)
      snapshotSummary_of_fields [of env "snd state" vm layoutEx currentSnapshot ?node parent]
    by (simp add: split_def)
  then show ?case
    using "2.IH"(2) [OF i c l m r] by simp
qed

lemma emitted_size_flags:
  assumes "NewSnapshotSummarySet clk vm ageCritical ageWarning sizeCritical sizeWarning = Inr (s, clk')"
    and "snap \<in> set (Snapshots s)"
  shows "sizeWarningState snap = ExceedsSize (Size snap) sizeCritical \<and>
         sizeCriticalState snap = ExceedsSize (Size snap) sizeWarning"
proof -
  from assms(1) obtain info :: VirtualMachineSnapshotInfo and layoutEx where
    c: "crawlFunc (captured_variables layoutEx ageCritical ageWarning sizeCritical sizeWarning)
          vm (RootSnapshotList info) None ([], stl clk) = Inr (Snapshots s, clk')"
    by (auto simp: NewSnapshotSummarySet_def time_Now_def Let_def split: option.splits sum.splits)
  show ?thesis
    using crawlFunc_size_flags [OF c] assms(2)
    by (simp add: captured_variables_def)
qed

lemmas eval_defs =
  NewSnapshotSummarySet_def time_Now_def captured_variables_def snapshotSummary_of_def
  snapshotSize_of_def collectFileKeys_def appendChainFileKeys_def fileKeyMap_Size_def
  ExceedsSize_def ExceedsAge_def AddDate_days_def Before_def Equal_def After_def GB_def
  word_sless_alt day_instant_def snapshot_11_def snapshot_12_def snapshot_21_def snapshot_22_def

lemma NewSnapshotSummarySet_web01:
  "NewSnapshotSummarySet (sconst (day_instant 100)) web01 60 30 20 10 =
     Inr (web01_set, sconst (day_instant 100))"
  by (simp add: eval_defs web01_def web01_trees_def web01_layout_def web01_set_def)

text \<open>
  C1. The claim asks for a size warning flag computed from the warning threshold and a
  size critical flag computed from the critical threshold. On \<open>web01\<close>, with a warning
  threshold of 10 GB and a critical threshold of 20 GB, the second snapshot has
  16643029072 bytes, more than 10 GB and not more than 20 GB, and the code returns it
  with the warning flag false and the critical flag true: the struct literal passes
  the two thresholds in swapped places (\<open>emitted_size_flags\<close>). The flags of the set
  are computed as claimed.
\<close>

theorem size_flags_swapped_on_web01:
  "map_sum id
     (\<lambda>r. map (\<lambda>snap. (Size snap, sizeWarningState snap, sizeCriticalState snap))
            (Snapshots (fst r)))
     (NewSnapshotSummarySet (sconst (day_instant 100)) web01 60 30 20 10) =
     Inr [(30000, False, False), (16643029072, False, True)] \<and>
   ExceedsSize 16643029072 10 \<and> \<not> ExceedsSize 16643029072 20"
  by (simp add: NewSnapshotSummarySet_web01 web01_set_def ExceedsSize_def GB_def word_sless_alt)

text \<open>
  C2, as the claim states it, fails when the sum of the sizes does not fit \<open>int64\<close>:
  \<open>Size()\<close> and \<open>setSize\<close> wrap around. The two snapshots of \<open>big01\<close> have
  \<open>2 ^ 62\<close> bytes each, \<open>2 ^ 63\<close> together, and \<open>Size()\<close> of the returned set is
  \<open>- 2 ^ 63\<close>; both set-level flags are false.
\<close>

theorem set_size_wraps_counterexample:
  "map_sum id fst (NewSnapshotSummarySet (sconst (day_instant 100)) big01 60 30 20 10) =
     Inr big01_set \<and>
   map Size (Snapshots big01_set) = [4611686018427387904, 4611686018427387904] \<and>
   sint (4611686018427387904 :: int64) + sint (4611686018427387904 :: int64) = 9223372036854775808 \<and>
   sint (SnapshotSummarySet_Size big01_set) = - 9223372036854775808"
  by (simp add: eval_defs big01_def big01_set_def SnapshotSummarySet_Size_def)

text \<open>
  C2, amended. For the set \<open>s\<close> that \<open>NewSnapshotSummarySet\<close> returns, when the exact
  sum of the sizes of the summaries of \<open>s\<close> fits \<open>int64\<close>, \<open>Size()\<close> is exactly that sum,
  every summary counted once; and the set-level flags are \<open>ExceedsSize\<close> of that same
  value against the warning and the critical threshold.
\<close>

theorem set_size_is_sum_of_sizes:
  assumes "NewSnapshotSummarySet clk vm ageCritical ageWarning sizeCritical sizeWarning = Inr (s, clk')"
    and "- (2 ^ 63) \<le> (\<Sum>snap\<leftarrow>Snapshots s. sint (Size snap))"
    and "(\<Sum>snap\<leftarrow>Snapshots s. sint (Size snap)) < 2 ^ 63"
  shows "sint (SnapshotSummarySet_Size s) = (\<Sum>snap\<leftarrow>Snapshots s. sint (Size snap)) \<and>
         setSizeWarningState s = ExceedsSize (SnapshotSummarySet_Size s) sizeWarning \<and>
         setSizeCriticalState s = ExceedsSize (SnapshotSummarySet_Size s) sizeCritical"
proof -
  have flags: "setSizeWarningState s = ExceedsSize (SnapshotSummarySet_Size s) sizeWarning \<and>
         setSizeCriticalState s = ExceedsSize (SnapshotSummarySet_Size s) sizeCritical"
    using assms(1)
    by (auto simp: NewSnapshotSummarySet_def SnapshotSummarySet_Size_def Let_def
        split: option.splits sum.splits prod.splits)
  show ?thesis
    using flags SnapshotSummarySet_Size_exact [OF assms(2,3)] by simp
qed

theorem set_size_is_sum_of_sizes_witness:
  "sint (SnapshotSummarySet_Size web01_set) = 30000 + 16643029072 \<and>
   setSizeWarningState web01_set = ExceedsSize (SnapshotSummarySet_Size web01_set) 10 \<and>
   setSizeCriticalState web01_set = ExceedsSize (SnapshotSummarySet_Size web01_set) 20"
proof -
  have lo: "- (2 ^ 63) \<le> (\<Sum>snap\<leftarrow>Snapshots web01_set. sint (Size snap))"
    by (simp add: web01_set_def)
  have hi: "(\<Sum>snap\<leftarrow>Snapshots web01_set. sint (Size snap)) < 2 ^ 63"
    by (simp add: web01_set_def)
  have "(\<Sum>snap\<leftarrow>Snapshots web01_set. sint (Size snap)) = 30000 + 16643029072"
    by (simp add: web01_set_def)
  then show ?thesis
    using set_size_is_sum_of_sizes [OF NewSnapshotSummarySet_web01 lo hi] by simp
qed

end
